theory Spec2Isabelle
  imports Complex_Main "HOL-Library.Word" "HOL-Library.Signed_Division"
begin

section \<open>Common conventions\<close>

text \<open>
  Instants (Go's \<^verbatim>\<open>time.Time\<close>) and durations (\<^verbatim>\<open>time.Duration\<close>) are integers counting
  nanoseconds. Every call of \<^verbatim>\<open>time.Now()\<close> in the source is an explicit argument of the
  model, named in the order in which the source reads the clock.

  Go's \<^verbatim>\<open>float64\<close> readings (percentages, temperatures, ratios) are modelled by \<^typ>\<open>real\<close>:
  the source compares them with constants and with each other. Where it computes before
  it compares, the model computes exactly: the quotient of the I/O plugin's mixed mode,
  an integer between -999 and 999 divided by 1000, is compared below with the ratios 0.5
  and 1.0 only, for which the exact and the rounded quotient compare alike.

  A text built by \<^verbatim>\<open>fmt.Sprintf\<close> or \<^verbatim>\<open>fmt.Errorf\<close> is kept as its format string and its
  arguments; the rendering of the arguments is not modelled.
\<close>

datatype fmt_arg = FloatArg real | IntArg int | StrArg string | TextArg message
  and message = Text string "fmt_arg list"

text \<open>A Go \<^verbatim>\<open>error\<close> is the text it renders to; a nil error is \<open>None\<close> of
  \<open>error option\<close>. \<^verbatim>\<open>fmt.Errorf("...: %w", err)\<close> keeps the wrapped error as a \<open>TextArg\<close>.\<close>

type_synonym error = message

definition Second :: int where
  "Second = 1000000000"

definition Minute :: int where
  "Minute = 60 * Second"

definition Hour :: int where
  "Hour = 60 * Minute"

section \<open>Safety monitor (internal/safety/monitor.go)\<close>

datatype Severity = SeverityInfo | SeverityWarning | SeverityError | SeverityCritical

record Violation =
  Type :: string
  CurrentValue :: real
  Limit :: real
  Severity :: Severity
  Message :: message
  Timestamp :: int
  Critical :: bool

text \<open>An alert carries type, message, severity, timestamp and the metadata
  (current value, limit, critical).\<close>

datatype Alert = Alert string message Severity int real real bool

record SafetyLimits =
  MaxCPUPercent :: real
  MaxMemoryPercent :: real
  MaxDiskPercent :: real
  MaxNetworkMbps :: real

text \<open>The \<^verbatim>\<open>SystemMonitor\<close> interface: what each accessor returns when it is called
  during the modelled invocation; \<open>None\<close> is a non-nil error.\<close>

record SystemMonitor =
  GetCPUUsage :: "real option"
  GetMemoryUsage :: "real option"
  GetDiskUsage :: "real option"
  GetNetworkUsage :: "real option"
  GetSystemTemperature :: "real option"

record Config =
  AlertThreshold :: real
  EmergencyThreshold :: real
  MaxViolationsPerMin :: int

text \<open>The monitor. \<open>emergencyStop\<close> is the content of the buffered channel
  (capacity 10, oldest first); \<open>alerts\<close> are the alerts handed to the alert manager.\<close>

record Monitor =
  config :: Config
  emergencyStop :: "message list"
  violations :: "Violation list"
  alerts :: "Alert list"

definition recordViolation :: "Monitor \<Rightarrow> Violation \<Rightarrow> int \<Rightarrow> Monitor" where
  "recordViolation m violation now =
     (let cutoff = now - 1 * Hour;
          filtered = filter (\<lambda>v. cutoff < Timestamp v) (violations m @ [violation])
      in m\<lparr>violations := filtered,
            alerts := alerts m @ [Alert (Type violation) (Message violation) (Severity violation)
                       (Timestamp violation) (CurrentValue violation) (Limit violation)
                       (Critical violation)]\<rparr>)"

definition getRecentViolations :: "Monitor \<Rightarrow> int \<Rightarrow> int \<Rightarrow> Violation list" where
  "getRecentViolations m duration now =
     (let cutoff = now - duration
      in filter (\<lambda>violation. cutoff < Timestamp violation) (violations m))"

definition sendEmergencyStop :: "Monitor \<Rightarrow> message \<Rightarrow> Monitor" where
  "sendEmergencyStop m reason =
     (if length (emergencyStop m) < 10
      then m\<lparr>emergencyStop := emergencyStop m @ [reason]\<rparr>
      else m)"

text \<open>The four blocks of \<^verbatim>\<open>CheckSafetyLimits\<close>, each the violation its block builds
  (if the accessor succeeds and the reading exceeds the limit).\<close>

definition cpuViolation :: "Config \<Rightarrow> SystemMonitor \<Rightarrow> SafetyLimits \<Rightarrow> int \<Rightarrow> Violation option" where
  "cpuViolation c sm limits now =
     (case GetCPUUsage sm of
        None \<Rightarrow> None
      | Some cpuUsage \<Rightarrow>
          if cpuUsage > MaxCPUPercent limits then
            Some \<lparr>Type = ''cpu'', CurrentValue = cpuUsage, Limit = MaxCPUPercent limits,
                  Severity = (if cpuUsage > EmergencyThreshold c then SeverityCritical
                              else if cpuUsage > AlertThreshold c then SeverityError
                              else SeverityWarning),
                  Message = Text ''CPU usage %.1f%% exceeds limit %.1f%%''
                              [FloatArg cpuUsage, FloatArg (MaxCPUPercent limits)],
                  Timestamp = now,
                  Critical = (cpuUsage > EmergencyThreshold c)\<rparr>
          else None)"

definition memoryViolation :: "Config \<Rightarrow> SystemMonitor \<Rightarrow> SafetyLimits \<Rightarrow> int \<Rightarrow> Violation option" where
  "memoryViolation c sm limits now =
     (case GetMemoryUsage sm of
        None \<Rightarrow> None
      | Some memUsage \<Rightarrow>
          if memUsage > MaxMemoryPercent limits then
            Some \<lparr>Type = ''memory'', CurrentValue = memUsage, Limit = MaxMemoryPercent limits,
                  Severity = (if memUsage > EmergencyThreshold c then SeverityCritical
                              else if memUsage > AlertThreshold c then SeverityError
                              else SeverityWarning),
                  Message = Text ''Memory usage %.1f%% exceeds limit %.1f%%''
                              [FloatArg memUsage, FloatArg (MaxMemoryPercent limits)],
                  Timestamp = now,
                  Critical = (memUsage > EmergencyThreshold c)\<rparr>
          else None)"

definition diskViolation :: "Config \<Rightarrow> SystemMonitor \<Rightarrow> SafetyLimits \<Rightarrow> int \<Rightarrow> Violation option" where
  "diskViolation c sm limits now =
     (case GetDiskUsage sm of
        None \<Rightarrow> None
      | Some diskUsage \<Rightarrow>
          if diskUsage > MaxDiskPercent limits then
            Some \<lparr>Type = ''disk'', CurrentValue = diskUsage, Limit = MaxDiskPercent limits,
                  Severity = (if diskUsage > EmergencyThreshold c then SeverityCritical
                              else if diskUsage > AlertThreshold c then SeverityError
                              else SeverityWarning),
                  Message = Text ''Disk usage %.1f%% exceeds limit %.1f%%''
                              [FloatArg diskUsage, FloatArg (MaxDiskPercent limits)],
                  Timestamp = now,
                  Critical = (diskUsage > EmergencyThreshold c)\<rparr>
          else None)"

definition networkViolation :: "SystemMonitor \<Rightarrow> SafetyLimits \<Rightarrow> int \<Rightarrow> Violation option" where
  "networkViolation sm limits now =
     (case GetNetworkUsage sm of
        None \<Rightarrow> None
      | Some netUsage \<Rightarrow>
          if netUsage > MaxNetworkMbps limits then
            Some \<lparr>Type = ''network'', CurrentValue = netUsage, Limit = MaxNetworkMbps limits,
                  Severity = (if netUsage > MaxNetworkMbps limits * 2 then SeverityError
                              else SeverityWarning),
                  Message = Text ''Network usage %.1f Mbps exceeds limit %.1f Mbps''
                              [FloatArg netUsage, FloatArg (MaxNetworkMbps limits)],
                  Timestamp = now,
                  Critical = False\<rparr>
          else None)"

text \<open>\<^verbatim>\<open>CheckSafetyLimits\<close>: the first block that builds a violation records it and returns
  it. \<open>now\<close> is the clock reading for the violation's timestamp, \<open>now'\<close> the one taken
  inside \<^verbatim>\<open>recordViolation\<close>. The result is the returned pointer (\<open>None\<close> for nil) and
  the monitor afterwards.\<close>

definition CheckSafetyLimits ::
  "Monitor \<Rightarrow> SystemMonitor \<Rightarrow> SafetyLimits \<Rightarrow> int \<Rightarrow> int \<Rightarrow> Violation option \<times> Monitor" where
  "CheckSafetyLimits m sm limits now now' =
     (case cpuViolation (config m) sm limits now of
        Some violation \<Rightarrow> (Some violation, recordViolation m violation now')
      | None \<Rightarrow>
     (case memoryViolation (config m) sm limits now of
        Some violation \<Rightarrow> (Some violation, recordViolation m violation now')
      | None \<Rightarrow>
     (case diskViolation (config m) sm limits now of
        Some violation \<Rightarrow> (Some violation, recordViolation m violation now')
      | None \<Rightarrow>
     (case networkViolation sm limits now of
        Some violation \<Rightarrow> (Some violation, recordViolation m violation now')
      | None \<Rightarrow> (None, m)))))"

text \<open>\<^verbatim>\<open>runtime.MemStats\<close>, the two fields the monitor reads (\<^verbatim>\<open>uint64\<close>).\<close>

record MemStats =
  Sys :: "64 word"
  HeapAlloc :: "64 word"

definition degree_sign :: string where
  "degree_sign = [char_of (194::nat), char_of (176::nat)]"

text \<open>\<^verbatim>\<open>performSafetyCheck\<close>, one tick of the monitor's own loop, as its three blocks
  ("Check system health", "Check violation rate", "Check memory pressure"). Clock
  readings in source order: \<open>now1\<close> stamps the temperature violation, \<open>now2\<close> is read
  when it is recorded, \<open>now3\<close> is read by \<^verbatim>\<open>getRecentViolations\<close>, \<open>now4\<close> stamps the
  memory-pressure violation and \<open>now5\<close> is read when that one is recorded.\<close>

definition temperatureCheck :: "Monitor \<Rightarrow> SystemMonitor \<Rightarrow> int \<Rightarrow> int \<Rightarrow> Monitor" where
  "temperatureCheck m sm now1 now2 =
     (case GetSystemTemperature sm of
        None \<Rightarrow> m
      | Some temp \<Rightarrow>
          if temp > 85 then
            let violation = \<lparr>Type = ''temperature'', CurrentValue = temp, Limit = 85,
                              Severity = SeverityCritical,
                              Message = Text (''System temperature %.1f'' @ degree_sign @ ''C is too high'')
                                          [FloatArg temp],
                              Timestamp = now1,
                              Critical = (temp > 90)\<rparr>;
                m' = recordViolation m violation now2
            in if Critical violation
               then sendEmergencyStop m'
                      (Text (''Critical temperature: %.1f'' @ degree_sign @ ''C'') [FloatArg temp])
               else m'
          else m)"

definition violationRateCheck :: "Monitor \<Rightarrow> int \<Rightarrow> Monitor" where
  "violationRateCheck m now3 =
     (let recentViolations = getRecentViolations m (1 * Minute) now3
      in if int (length recentViolations) > MaxViolationsPerMin (config m)
         then sendEmergencyStop m
                (Text ''Too many violations: %d in last minute''
                   [IntArg (int (length recentViolations))])
         else m)"

definition memoryPressureCheck :: "Monitor \<Rightarrow> MemStats \<Rightarrow> int \<Rightarrow> int \<Rightarrow> Monitor" where
  "memoryPressureCheck m memStats now4 now5 =
     (if Sys memStats > 2 * 1024 * 1024 * 1024 then
        if HeapAlloc memStats > Sys memStats div 2 then
          recordViolation m
            \<lparr>Type = ''memory_pressure'',
             CurrentValue = real (unat (HeapAlloc memStats)) / real (unat (Sys memStats)) * 100,
             Limit = 50,
             Severity = SeverityWarning,
             Message = Text ''High memory pressure detected'' [],
             Timestamp = now4,
             Critical = False\<rparr> now5
        else m
      else m)"

definition performSafetyCheck ::
  "Monitor \<Rightarrow> SystemMonitor \<Rightarrow> MemStats \<Rightarrow> int \<Rightarrow> int \<Rightarrow> int \<Rightarrow> int \<Rightarrow> int \<Rightarrow> Monitor" where
  "performSafetyCheck m sm memStats now1 now2 now3 now4 now5 =
     memoryPressureCheck (violationRateCheck (temperatureCheck m sm now1 now2) now3)
       memStats now4 now5"

section \<open>Metrics collector (package metrics)\<close>

text \<open>\<^verbatim>\<open>SystemMetrics\<close> with its nested anonymous structs flattened: the field
  \<^verbatim>\<open>CPU.Usage\<close> is \<open>CPU_Usage\<close>, and so on. \<^verbatim>\<open>uint64\<close> fields are 64-bit words.\<close>

record SystemMetrics =
  Timestamp_sys :: int
  CPU_Usage :: real
  CPU_Cores :: int
  Memory_Total :: "64 word"
  Memory_Used :: "64 word"
  Memory_Available :: "64 word"
  Memory_Usage :: real
  Disk_Total :: "64 word"
  Disk_Used :: "64 word"
  Disk_Free :: "64 word"
  Disk_Usage :: real
  Network_BytesSent :: "64 word"
  Network_BytesRecv :: "64 word"

text \<open>The results of the gopsutil accessors on one tick (\<open>None\<close>: the accessor
  returned an error).\<close>

record VirtualMemoryStat =
  vm_Total :: "64 word"
  vm_Used :: "64 word"
  vm_Available :: "64 word"
  vm_UsedPercent :: real

record UsageStat =
  du_Total :: "64 word"
  du_Used :: "64 word"
  du_Free :: "64 word"
  du_UsedPercent :: real

record IOCountersStat =
  io_BytesSent :: "64 word"
  io_BytesRecv :: "64 word"

record Probe =
  cpu_Percent :: "real list option"
  cpu_Counts :: "int option"
  mem_VirtualMemory :: "VirtualMemoryStat option"
  disk_Usage :: "UsageStat option"
  net_IOCounters :: "IOCountersStat list option"

record Collector =
  metrics :: SystemMetrics
  isCollecting :: bool

text \<open>The zero value of \<^verbatim>\<open>SystemMetrics\<close> (\<^verbatim>\<open>var metrics SystemMetrics\<close>); the zero
  \<^verbatim>\<open>time.Time\<close> is written as instant 0.\<close>

definition zeroSystemMetrics :: SystemMetrics where
  "zeroSystemMetrics =
     \<lparr>Timestamp_sys = 0, CPU_Usage = 0, CPU_Cores = 0,
      Memory_Total = 0, Memory_Used = 0, Memory_Available = 0, Memory_Usage = 0,
      Disk_Total = 0, Disk_Used = 0, Disk_Free = 0, Disk_Usage = 0,
      Network_BytesSent = 0, Network_BytesRecv = 0\<rparr>"

definition NewCollector :: Collector where
  "NewCollector = \<lparr>metrics = zeroSystemMetrics, isCollecting = False\<rparr>"

definition GetMetrics :: "Collector \<Rightarrow> SystemMetrics" where
  "GetMetrics c = metrics c"

definition collectSystemMetrics :: "Collector \<Rightarrow> Probe \<Rightarrow> int \<Rightarrow> Collector" where
  "collectSystemMetrics c probe now =
     (let metrics0 = zeroSystemMetrics\<lparr>Timestamp_sys := now\<rparr>;
          metrics1 = (case cpu_Percent probe of
                        Some (usage # rest) \<Rightarrow> metrics0\<lparr>CPU_Usage := usage\<rparr>
                      | _ \<Rightarrow> metrics0);
          metrics2 = (case cpu_Counts probe of
                        Some cpuCounts \<Rightarrow> metrics1\<lparr>CPU_Cores := cpuCounts\<rparr>
                      | None \<Rightarrow> metrics1);
          metrics3 = (case mem_VirtualMemory probe of
                        Some memStat \<Rightarrow>
                          metrics2\<lparr>Memory_Total := vm_Total memStat,
                                   Memory_Used := vm_Used memStat,
                                   Memory_Available := vm_Available memStat,
                                   Memory_Usage := vm_UsedPercent memStat\<rparr>
                      | None \<Rightarrow> metrics2);
          metrics4 = (case disk_Usage probe of
                        Some diskStat \<Rightarrow>
                          metrics3\<lparr>Disk_Total := du_Total diskStat,
                                   Disk_Used := du_Used diskStat,
                                   Disk_Free := du_Free diskStat,
                                   Disk_Usage := du_UsedPercent diskStat\<rparr>
                      | None \<Rightarrow> metrics3);
          metrics5 = (case net_IOCounters probe of
                        Some (stat # rest) \<Rightarrow>
                          metrics4\<lparr>Network_BytesSent := io_BytesSent stat,
                                   Network_BytesRecv := io_BytesRecv stat\<rparr>
                      | _ \<Rightarrow> metrics4)
      in c\<lparr>metrics := metrics5\<rparr>)"

section \<open>Contexts, errors and panics\<close>

datatype ctx_error = Canceled | DeadlineExceeded

definition ctxError :: "ctx_error \<Rightarrow> error" where
  "ctxError e = (case e of Canceled \<Rightarrow> Text ''context canceled'' []
                         | DeadlineExceeded \<Rightarrow> Text ''context deadline exceeded'' [])"

text \<open>A context made by \<^verbatim>\<open>context.WithTimeout\<close>: its deadline, and the instant of the first
  call of its cancel function that came before the deadline (if any). The record is
  the whole history of the token: a cancellation recorded at instant \<open>t\<close> is visible to
  readers from \<open>t\<close> on.\<close>

record Context =
  deadline :: int
  cancelled :: "int option"

definition WithTimeout :: "int \<Rightarrow> int \<Rightarrow> Context" where
  "WithTimeout now timeout = \<lparr>deadline = now + timeout, cancelled = None\<rparr>"

text \<open>Calling the cancel function at instant \<open>now\<close>: a no-op on a context that is
  already cancelled or past its deadline.\<close>

definition Cancel :: "Context \<Rightarrow> int \<Rightarrow> Context" where
  "Cancel c now =
     (if cancelled c = None \<and> now < deadline c then c\<lparr>cancelled := Some now\<rparr> else c)"

text \<open>The instant at which \<^verbatim>\<open>Done()\<close> is closed and the error \<^verbatim>\<open>Err()\<close> returns from
  then on.\<close>

definition doneAt :: "Context \<Rightarrow> int" where
  "doneAt c = (case cancelled c of None \<Rightarrow> deadline c | Some t \<Rightarrow> min t (deadline c))"

definition doneErr :: "Context \<Rightarrow> ctx_error" where
  "doneErr c = (case cancelled c of
                  None \<Rightarrow> DeadlineExceeded
                | Some t \<Rightarrow> if t < deadline c then Canceled else DeadlineExceeded)"

definition Err :: "Context \<Rightarrow> int \<Rightarrow> ctx_error option" where
  "Err c now = (if doneAt c \<le> now then Some (doneErr c) else None)"

text \<open>What a call does: it returns a value, or it panics with a value.\<close>

datatype 'a outcome = Returns 'a | Panics message

text \<open>\<^verbatim>\<open>close(ch)\<close> on a channel that is only ever closed (the plugins' \<^verbatim>\<open>stopChan\<close>):
  the channel is the flag "closed"; closing it twice panics.\<close>

definition close_chan :: "bool \<Rightarrow> bool outcome" where
  "close_chan isClosed =
     (if isClosed then Panics (Text ''close of closed channel'' []) else Returns True)"

section \<open>Plugin interface and plugin manager (package plugins)\<close>

record TestParams =
  Duration :: int
  Intensity :: int
  Concurrency :: int

text \<open>A value of the interface \<^verbatim>\<open>StressPlugin\<close>: the lifecycle methods of a plugin and the
  instance they act on (\<open>inst\<close>, of type \<open>'p\<close>). \<open>'j\<close> is the type of decoded JSON
  values (\<^verbatim>\<open>interface{}\<close>); a nil configuration is \<open>None\<close>. \<open>Execute\<close> also takes the
  instant at which it is entered. Every method may panic.\<close>

record ('j, 'p) StressPlugin =
  Initialize :: "'j option \<Rightarrow> 'p \<Rightarrow> error option outcome \<times> 'p"
  Execute :: "Context \<Rightarrow> TestParams \<Rightarrow> int \<Rightarrow> 'p \<Rightarrow> error option outcome \<times> 'p"
  Cleanup :: "'p \<Rightarrow> error option outcome \<times> 'p"
  inst :: 'p

record ('j, 'p) PluginManager =
  plugins :: "string \<rightharpoonup> ('j, 'p) StressPlugin"

definition ErrPluginNotFound :: error where
  "ErrPluginNotFound = Text ''plugin not found'' []"

text \<open>The calls a plugin receives, in order.\<close>

datatype plugin_call = CallInitialize | CallExecute | CallCleanup

definition setInstance ::
  "('j, 'p) PluginManager \<Rightarrow> string \<Rightarrow> ('j, 'p) StressPlugin \<Rightarrow> 'p \<Rightarrow> ('j, 'p) PluginManager" where
  "setInstance pm name plugin p = pm\<lparr>plugins := (plugins pm)(name \<mapsto> plugin\<lparr>inst := p\<rparr>)\<rparr>"

text \<open>\<^verbatim>\<open>ExecutePlugin\<close>. The deferred \<^verbatim>\<open>plugin.Cleanup()\<close> is registered only after
  \<^verbatim>\<open>Initialize\<close> has returned nil; it runs when \<^verbatim>\<open>Execute\<close> returns and also when it
  panics, its own result is discarded, and a panic of its own replaces the outcome.
  The result is the outcome, the manager with the plugin instance as the calls left
  it, and the calls made.\<close>

definition ExecutePlugin ::
  "('j, 'p) PluginManager \<Rightarrow> Context \<Rightarrow> string \<Rightarrow> 'j option \<Rightarrow> TestParams \<Rightarrow> int \<Rightarrow>
     error option outcome \<times> ('j, 'p) PluginManager \<times> plugin_call list" where
  "ExecutePlugin pm ctx name cfg params tExec =
     (case plugins pm name of
        None \<Rightarrow> (Returns (Some ErrPluginNotFound), pm, [])
      | Some plugin \<Rightarrow>
          (case Initialize plugin cfg (inst plugin) of
             (Panics v, p1) \<Rightarrow> (Panics v, setInstance pm name plugin p1, [CallInitialize])
           | (Returns (Some err), p1) \<Rightarrow>
               (Returns (Some err), setInstance pm name plugin p1, [CallInitialize])
           | (Returns None, p1) \<Rightarrow>
               (case Execute plugin ctx params tExec p1 of
                  (r, p2) \<Rightarrow>
                    (case Cleanup plugin p2 of
                       (Panics v, p3) \<Rightarrow>
                         (Panics v, setInstance pm name plugin p3,
                          [CallInitialize, CallExecute, CallCleanup])
                     | (Returns e, p3) \<Rightarrow>
                         (r, setInstance pm name plugin p3,
                          [CallInitialize, CallExecute, CallCleanup])))))"

section \<open>Test orchestrator (package core)\<close>

datatype ExecutionStatus =
  StatusPending | StatusRunning | StatusCompleted | StatusFailed | StatusStopped

definition statusString :: "ExecutionStatus \<Rightarrow> string" where
  "statusString st = (case st of StatusPending \<Rightarrow> ''pending'' | StatusRunning \<Rightarrow> ''running''
     | StatusCompleted \<Rightarrow> ''completed'' | StatusFailed \<Rightarrow> ''failed'' | StatusStopped \<Rightarrow> ''stopped'')"

text \<open>\<^verbatim>\<open>models.TestConfiguration\<close>, the fields the orchestrator reads: the plugin name and
  the raw JSON of the plugin configuration (the source's field \<^verbatim>\<open>Config\<close>).\<close>

record TestConfiguration =
  Plugin :: string
  RawConfig :: string

text \<open>\<^verbatim>\<open>TestExecution\<close>: the source's field \<^verbatim>\<open>Config\<close> is \<open>TestConfig\<close>, \<^verbatim>\<open>Context\<close> with its
  \<^verbatim>\<open>Cancel\<close> function is \<open>Ctx\<close>; the metrics buffer is left out.\<close>

record TestExecution =
  ID :: string
  TestConfig :: TestConfiguration
  Status :: ExecutionStatus
  StartTime :: int
  EndTime :: "int option"
  Ctx :: Context
  ErrorMessage :: "message option"

record ('j, 'p) TestOrchestrator =
  pluginManager :: "('j, 'p) PluginManager"
  executions :: "string \<rightharpoonup> TestExecution"

text \<open>The two errors of \<^verbatim>\<open>StopTest\<close>, under the names of the specification's taxonomy.\<close>

definition NotFound :: "string \<Rightarrow> error" where
  "NotFound executionID = Text ''test execution not found: %s'' [StrArg executionID]"

definition NotRunning :: "ExecutionStatus \<Rightarrow> error" where
  "NotRunning st = Text ''test is not running: %s'' [StrArg (statusString st)]"

definition finishTestWithError :: "TestExecution \<Rightarrow> error \<Rightarrow> int \<Rightarrow> TestExecution" where
  "finishTestWithError execution err now =
     execution\<lparr>Status := StatusFailed, ErrorMessage := Some err, EndTime := Some now\<rparr>"

definition finishTestWithStatus :: "TestExecution \<Rightarrow> ExecutionStatus \<Rightarrow> int \<Rightarrow> TestExecution" where
  "finishTestWithStatus execution st now = execution\<lparr>Status := st, EndTime := Some now\<rparr>"

definition handleTestPanic :: "TestExecution \<Rightarrow> message \<Rightarrow> int \<Rightarrow> TestExecution" where
  "handleTestPanic execution r now =
     execution\<lparr>Status := StatusFailed,
                ErrorMessage := Some (Text ''Test panicked: %v'' [TextArg r]),
                EndTime := Some now\<rparr>"

text \<open>\<^verbatim>\<open>StartTest\<close>. \<open>executionID\<close> is the fresh UUID; \<open>now1\<close> is the clock reading inside
  \<^verbatim>\<open>context.WithTimeout\<close>, \<open>now2\<close> the one for \<^verbatim>\<open>StartTime\<close>. The goroutine it starts is
  \<open>executeTest\<close> below.\<close>

definition StartTest ::
  "('j, 'p) TestOrchestrator \<Rightarrow> TestConfiguration \<Rightarrow> TestParams \<Rightarrow> string \<Rightarrow> int \<Rightarrow> int \<Rightarrow>
     (error + string) \<times> ('j, 'p) TestOrchestrator" where
  "StartTest to cfg params executionID now1 now2 =
     (case plugins (pluginManager to) (Plugin cfg) of
        None \<Rightarrow> (Inl (Text ''plugin not found: %s'' [StrArg (Plugin cfg)]), to)
      | Some plugin \<Rightarrow>
          (Inr executionID,
           to\<lparr>executions := (executions to)(executionID \<mapsto>
                \<lparr>ID = executionID, TestConfig = cfg, Status = StatusPending,
                 StartTime = now2, EndTime = None,
                 Ctx = WithTimeout now1 (Duration params), ErrorMessage = None\<rparr>)\<rparr>))"

text \<open>\<^verbatim>\<open>StopTest\<close> at instant \<open>now\<close>: the error returned (\<open>None\<close> for nil) and the
  orchestrator afterwards.\<close>

definition StopTest ::
  "('j, 'p) TestOrchestrator \<Rightarrow> string \<Rightarrow> int \<Rightarrow> error option \<times> ('j, 'p) TestOrchestrator" where
  "StopTest to executionID now =
     (case executions to executionID of
        None \<Rightarrow> (Some (NotFound executionID), to)
      | Some execution \<Rightarrow>
          if Status execution \<noteq> StatusRunning
          then (Some (NotRunning (Status execution)), to)
          else (None,
                to\<lparr>executions := (executions to)(executionID \<mapsto>
                     execution\<lparr>Ctx := Cancel (Ctx execution) now\<rparr>)\<rparr>))"

definition EmergencyStop ::
  "('j, 'p) TestOrchestrator \<Rightarrow> string \<Rightarrow> message \<Rightarrow> int \<Rightarrow> int \<Rightarrow>
     error option \<times> ('j, 'p) TestOrchestrator" where
  "EmergencyStop to executionID reason now1 now2 =
     (case executions to executionID of
        None \<Rightarrow> (Some (NotFound executionID), to)
      | Some execution \<Rightarrow>
          (None,
           to\<lparr>executions := (executions to)(executionID \<mapsto>
                execution\<lparr>Ctx := Cancel (Ctx execution) now1,
                           Status := StatusFailed,
                           ErrorMessage := Some reason,
                           EndTime := Some now2\<rparr>)\<rparr>))"

text \<open>\<^verbatim>\<open>executeTest\<close>, the goroutine of one execution, in two steps, because calls of
  \<^verbatim>\<open>StopTest\<close> and \<^verbatim>\<open>EmergencyStop\<close> can come between them: \<open>executeTest_begin\<close> is the
  status write at its start; \<open>executeTest_run\<close> is the rest. The execution record that
  \<open>executeTest_run\<close> reads carries in \<open>Ctx\<close> every cancellation up to the moment the
  plugin returns. \<open>unmarshal\<close> is \<^verbatim>\<open>json.Unmarshal\<close> into an \<^verbatim>\<open>interface{}\<close>; \<open>tExec\<close> is the
  instant \<^verbatim>\<open>ExecutePlugin\<close> is entered, \<open>tErr\<close> the instant \<^verbatim>\<open>execution.Context.Err()\<close> is
  read after it has returned, \<open>now\<close> the clock reading of the finishing function. A
  panic is recovered by the deferred function, which calls \<^verbatim>\<open>handleTestPanic\<close>. The
  safety watcher goroutine and the metrics collection (logging only) act on the
  execution only through \<^verbatim>\<open>EmergencyStop\<close>.\<close>

definition executeTest_begin :: "TestExecution \<Rightarrow> TestExecution" where
  "executeTest_begin execution = execution\<lparr>Status := StatusRunning\<rparr>"

text \<open>The block "Parse plugin configuration": the decoded value, nil (\<open>None\<close>) for an
  empty raw configuration, or the error of \<^verbatim>\<open>json.Unmarshal\<close>.\<close>

definition parsePluginConfig :: "(string \<Rightarrow> error + 'j) \<Rightarrow> TestExecution \<Rightarrow> error + 'j option" where
  "parsePluginConfig unmarshal execution =
     (if length (RawConfig (TestConfig execution)) > 0
      then (case unmarshal (RawConfig (TestConfig execution)) of
              Inl err \<Rightarrow> Inl err
            | Inr j \<Rightarrow> Inr (Some j))
      else Inr None)"

definition executeTest_run ::
  "('j, 'p) PluginManager \<Rightarrow> (string \<Rightarrow> error + 'j) \<Rightarrow> TestExecution \<Rightarrow> TestParams \<Rightarrow>
     int \<Rightarrow> int \<Rightarrow> int \<Rightarrow> TestExecution \<times> ('j, 'p) PluginManager \<times> plugin_call list" where
  "executeTest_run pm unmarshal execution params tExec tErr now =
     (case parsePluginConfig unmarshal execution of
        Inl err \<Rightarrow>
          (finishTestWithError execution
             (Text ''failed to parse plugin config: %w'' [TextArg err]) now, pm, [])
      | Inr pluginConfig \<Rightarrow>
          (case ExecutePlugin pm (Ctx execution) (Plugin (TestConfig execution))
                  pluginConfig params tExec of
             (Panics r, pm', calls) \<Rightarrow> (handleTestPanic execution r now, pm', calls)
           | (Returns (Some err), pm', calls) \<Rightarrow>
               (if Err (Ctx execution) tErr = Some Canceled
                then finishTestWithStatus execution StatusStopped now
                else finishTestWithError execution err now, pm', calls)
           | (Returns None, pm', calls) \<Rightarrow>
               (finishTestWithStatus execution StatusCompleted now, pm', calls)))"

definition executeTest ::
  "('j, 'p) PluginManager \<Rightarrow> (string \<Rightarrow> error + 'j) \<Rightarrow> TestExecution \<Rightarrow> TestParams \<Rightarrow>
     int \<Rightarrow> int \<Rightarrow> int \<Rightarrow> TestExecution \<times> ('j, 'p) PluginManager \<times> plugin_call list" where
  "executeTest pm unmarshal execution params tExec tErr now =
     executeTest_run pm unmarshal (executeTest_begin execution) params tExec tErr now"

text \<open>The goroutine's two steps on the execution stored under an id in the
  orchestrator (the goroutine holds a pointer to the stored record).\<close>

definition goroutine_begin :: "('j, 'p) TestOrchestrator \<Rightarrow> string \<Rightarrow> ('j, 'p) TestOrchestrator" where
  "goroutine_begin to executionID =
     (case executions to executionID of
        None \<Rightarrow> to
      | Some execution \<Rightarrow>
          to\<lparr>executions := (executions to)(executionID \<mapsto> executeTest_begin execution)\<rparr>)"

definition goroutine_run ::
  "('j, 'p) TestOrchestrator \<Rightarrow> (string \<Rightarrow> error + 'j) \<Rightarrow> string \<Rightarrow> TestParams \<Rightarrow>
     int \<Rightarrow> int \<Rightarrow> int \<Rightarrow> ('j, 'p) TestOrchestrator \<times> plugin_call list" where
  "goroutine_run to unmarshal executionID params tExec tErr now =
     (case executions to executionID of
        None \<Rightarrow> (to, [])
      | Some execution \<Rightarrow>
          (case executeTest_run (pluginManager to) unmarshal execution params tExec tErr now of
             (execution', pm', calls) \<Rightarrow>
               (to\<lparr>pluginManager := pm',
                   executions := (executions to)(executionID \<mapsto> execution')\<rparr>, calls)))"

section \<open>Shared helpers of the plugins\<close>

text \<open>Go's \<^verbatim>\<open>int64\<close> values are integers; where the source's arithmetic can leave the
  64-bit range the result is wrapped by \<open>wrap64\<close> (two's complement). Go's \<^verbatim>\<open>/\<close> and
  \<^verbatim>\<open>%\<close> on integers truncate towards zero: they are \<open>sdiv\<close> and \<open>smod\<close>.\<close>

definition wrap64 :: "int \<Rightarrow> int" where
  "wrap64 x = signed_take_bit 63 x"

text \<open>The outcome of \<^verbatim>\<open>json.Marshal(config)\<close> followed by \<^verbatim>\<open>json.Unmarshal(configBytes,
  &p.config)\<close>: marshalling failed, or unmarshalling failed and left the configuration
  struct as given, or it succeeded with the configuration struct as given.\<close>

datatype 'c decoded = MarshalError error | UnmarshalError error 'c | Decoded 'c

text \<open>Strings are byte strings (UTF-8). \<^verbatim>\<open>strings.ToUpper\<close> maps the bytes \<^verbatim>\<open>a\<close> to \<^verbatim>\<open>z\<close> of
  a string that is all ASCII; for a string with a byte outside ASCII it returns
  \<^verbatim>\<open>strings.Map(unicode.ToUpper, s)\<close>, which is the argument \<open>unicodeUpper\<close>.\<close>

definition ToUpper :: "(string \<Rightarrow> string) \<Rightarrow> string \<Rightarrow> string" where
  "ToUpper unicodeUpper s =
     (if list_all (\<lambda>c. (of_char c :: nat) < 128) s
      then map (\<lambda>c. if 97 \<le> (of_char c :: nat) \<and> (of_char c :: nat) \<le> 122
                      then char_of ((of_char c :: nat) - 32) else c) s
      else unicodeUpper s)"

text \<open>White space as \<^verbatim>\<open>unicode.IsSpace\<close> has it, by its UTF-8 encoding: the six ASCII
  characters (\<open>isSpace\<close>); U+0085 and U+00A0, of two bytes (\<open>isSpace2\<close>); U+1680, U+2000 to
  U+200A, U+2028, U+2029, U+202F, U+205F and U+3000, of three bytes (\<open>isSpace3\<close>).\<close>

definition isSpace :: "char \<Rightarrow> bool" where
  "isSpace c = ((of_char c :: nat) \<in> {9, 10, 11, 12, 13, 32})"

definition isSpace2 :: "char \<Rightarrow> char \<Rightarrow> bool" where
  "isSpace2 a b = ((of_char a :: nat) = 194 \<and> (of_char b :: nat) \<in> {133, 160})"

definition isSpace3 :: "char \<Rightarrow> char \<Rightarrow> char \<Rightarrow> bool" where
  "isSpace3 a b c =
     (((of_char a :: nat) = 225 \<and> (of_char b :: nat) = 154 \<and> (of_char c :: nat) = 128) \<or>
      ((of_char a :: nat) = 226 \<and> (of_char b :: nat) = 128 \<and>
         ((128 \<le> (of_char c :: nat) \<and> (of_char c :: nat) \<le> 138) \<or>
          (of_char c :: nat) \<in> {168, 169, 175})) \<or>
      ((of_char a :: nat) = 226 \<and> (of_char b :: nat) = 129 \<and> (of_char c :: nat) = 159) \<or>
      ((of_char a :: nat) = 227 \<and> (of_char b :: nat) = 128 \<and> (of_char c :: nat) = 128))"

text \<open>\<^verbatim>\<open>strings.TrimSpace\<close>: white-space characters are removed from the front, decoding
  forwards, and then from the back, decoding the last character each time. The second
  function works on the reversed string, whose head is the last byte.\<close>

fun trimLeftSpace :: "string \<Rightarrow> string" where
  "trimLeftSpace (a # b # c # s) =
     (if isSpace a then trimLeftSpace (b # c # s)
      else if isSpace2 a b then trimLeftSpace (c # s)
      else if isSpace3 a b c then trimLeftSpace s
      else a # b # c # s)"
| "trimLeftSpace [a, b] =
     (if isSpace a then trimLeftSpace [b] else if isSpace2 a b then [] else [a, b])"
| "trimLeftSpace [a] = (if isSpace a then [] else [a])"
| "trimLeftSpace [] = []"

fun trimRightSpaceRev :: "string \<Rightarrow> string" where
  "trimRightSpaceRev (c # b # a # s) =
     (if isSpace c then trimRightSpaceRev (b # a # s)
      else if isSpace2 b c then trimRightSpaceRev (a # s)
      else if isSpace3 a b c then trimRightSpaceRev s
      else c # b # a # s)"
| "trimRightSpaceRev [c, b] =
     (if isSpace c then trimRightSpaceRev [b] else if isSpace2 b c then [] else [c, b])"
| "trimRightSpaceRev [c] = (if isSpace c then [] else [c])"
| "trimRightSpaceRev [] = []"

definition TrimSpace :: "string \<Rightarrow> string" where
  "TrimSpace s = rev (trimRightSpaceRev (rev (trimLeftSpace s)))"

definition HasSuffix :: "string \<Rightarrow> string \<Rightarrow> bool" where
  "HasSuffix s suffix =
     (length suffix \<le> length s \<and> drop (length s - length suffix) s = suffix)"

definition TrimSuffix :: "string \<Rightarrow> string \<Rightarrow> string" where
  "TrimSuffix s suffix = (if HasSuffix s suffix then take (length s - length suffix) s else s)"

section \<open>CPU workload (internal/plugins/cpu_stress.go)\<close>

text \<open>Fields that several plugin structs share by name carry the plugin as a prefix
  (\<open>cpu_\<close>, \<open>mem_\<close>, \<open>io_\<close>). A \<^verbatim>\<open>stopChan\<close> is the flag "closed".\<close>

record CPUStressConfig =
  cpu_Workers :: int
  Algorithm :: string
  cpu_Intensity :: int
  RampUp :: bool

record CPUStressPlugin =
  cpu_config :: CPUStressConfig
  cpu_WorkerCount :: int
  cpu_stopChan :: bool
  currentWorkers :: int
  operationsCount :: int

definition NewCPUStressPlugin :: CPUStressPlugin where
  "NewCPUStressPlugin =
     \<lparr>cpu_config = \<lparr>cpu_Workers = 0, Algorithm = [], cpu_Intensity = 0, RampUp = False\<rparr>,
      cpu_WorkerCount = 0, cpu_stopChan = False, currentWorkers = 0, operationsCount = 0\<rparr>"

definition cpu_Initialize ::
  "CPUStressConfig decoded \<Rightarrow> int \<Rightarrow> CPUStressPlugin \<Rightarrow> error option \<times> CPUStressPlugin" where
  "cpu_Initialize dec numCPU c =
     (case dec of
        MarshalError err \<Rightarrow> (Some (Text ''failed to marshal config: %w'' [TextArg err]), c)
      | UnmarshalError err cfg \<Rightarrow>
          (Some (Text ''failed to unmarshal config: %w'' [TextArg err]), c\<lparr>cpu_config := cfg\<rparr>)
      | Decoded cfg \<Rightarrow>
          (let cfg1 = (if cpu_Workers cfg \<le> 0 then cfg\<lparr>cpu_Workers := numCPU\<rparr> else cfg);
               cfg2 = (if cpu_Intensity cfg1 \<le> 0 then cfg1\<lparr>cpu_Intensity := 70\<rparr> else cfg1);
               cfg3 = (if Algorithm cfg2 = [] then cfg2\<lparr>Algorithm := ''prime''\<rparr> else cfg2)
           in (None, c\<lparr>cpu_config := cfg3, currentWorkers := cpu_Workers cfg3,
                        cpu_WorkerCount := cpu_Workers cfg3\<rparr>)))"

text \<open>\<^verbatim>\<open>executeFullIntensity\<close>, entered at instant \<open>tExec\<close>: the \<^verbatim>\<open>select\<close> returns by the
  case that becomes ready first, the context's \<^verbatim>\<open>Done()\<close> at \<open>doneAt ctx\<close> or the timer
  \<^verbatim>\<open>time.After(params.Duration)\<close> at \<open>tExec + Duration params\<close>; when both become ready at
  the same instant Go chooses either, which is \<open>pick\<close> (\<open>True\<close> for the timer). The
  worker goroutines and the metrics goroutine of the plugin only count operations; they
  are not modelled, and \<open>operationsCount\<close> keeps the value \<^verbatim>\<open>Execute\<close> resets it to.\<close>

definition executeFullIntensity :: "Context \<Rightarrow> TestParams \<Rightarrow> int \<Rightarrow> bool \<Rightarrow> error option" where
  "executeFullIntensity ctx params tExec pick =
     (if doneAt ctx < tExec + Duration params then Some (ctxError (doneErr ctx))
      else if tExec + Duration params < doneAt ctx then None
      else if pick then None else Some (ctxError (doneErr ctx)))"

definition truncReal :: "real \<Rightarrow> int" where
  "truncReal x = (if 0 \<le> x then \<lfloor>x\<rfloor> else \<lceil>x\<rceil>)"

text \<open>The loop of \<^verbatim>\<open>executeWithRampUp\<close>: \<open>n\<close> steps remain, the next one polls the context
  at instant \<open>t\<close> and then sleeps for \<open>stepDuration\<close>.\<close>

fun rampUpLoop :: "Context \<Rightarrow> int \<Rightarrow> int \<Rightarrow> nat \<Rightarrow> error option" where
  "rampUpLoop ctx t stepDuration 0 = None"
| "rampUpLoop ctx t stepDuration (Suc n) =
     (case Err ctx t of
        Some e \<Rightarrow> Some (ctxError e)
      | None \<Rightarrow> rampUpLoop ctx (t + stepDuration) stepDuration n)"

text \<open>\<^verbatim>\<open>executeWithRampUp\<close>: after the ten steps it sleeps and returns nil without reading
  the context again. The product \<^verbatim>\<open>float64(params.Duration) * 0.1\<close> is taken exactly.\<close>

definition executeWithRampUp :: "Context \<Rightarrow> TestParams \<Rightarrow> int \<Rightarrow> error option" where
  "executeWithRampUp ctx params tExec =
     (let rampUpDuration0 = truncReal (real_of_int (Duration params) * (1 / 10));
          rampUpDuration = (if rampUpDuration0 < 10 * Second then 10 * Second else rampUpDuration0);
          steps = 10;
          stepDuration = rampUpDuration sdiv steps
      in rampUpLoop ctx tExec stepDuration (nat steps))"

definition cpu_Execute ::
  "CPUStressPlugin \<Rightarrow> Context \<Rightarrow> TestParams \<Rightarrow> int \<Rightarrow> bool \<Rightarrow> error option \<times> CPUStressPlugin" where
  "cpu_Execute c ctx params tExec pick =
     (let c' = c\<lparr>operationsCount := 0\<rparr>
      in if RampUp (cpu_config c') then (executeWithRampUp ctx params tExec, c')
         else (executeFullIntensity ctx params tExec pick, c'))"

definition cpu_Cleanup :: "CPUStressPlugin \<Rightarrow> error option outcome \<times> CPUStressPlugin" where
  "cpu_Cleanup c =
     (case close_chan (cpu_stopChan c) of
        Panics v \<Rightarrow> (Panics v, c)
      | Returns b \<Rightarrow> (Returns None, c\<lparr>cpu_stopChan := b\<rparr>))"

text \<open>The CPU plugin as a value of the plugin interface. \<open>decode\<close> is the JSON round trip
  of \<^verbatim>\<open>Initialize\<close> (from the configuration value and the current configuration
  struct), \<open>numCPU\<close> is \<^verbatim>\<open>runtime.NumCPU()\<close>.\<close>

definition cpuStressPlugin ::
  "('j option \<Rightarrow> CPUStressConfig \<Rightarrow> CPUStressConfig decoded) \<Rightarrow> int \<Rightarrow> bool \<Rightarrow>
     CPUStressPlugin \<Rightarrow> ('j, CPUStressPlugin) StressPlugin" where
  "cpuStressPlugin decode numCPU pick c =
     \<lparr>Initialize = (\<lambda>cfg p. case cpu_Initialize (decode cfg (cpu_config p)) numCPU p of
                               (e, p') \<Rightarrow> (Returns e, p')),
      Execute = (\<lambda>ctx params tExec p. case cpu_Execute p ctx params tExec pick of
                               (e, p') \<Rightarrow> (Returns e, p')),
      Cleanup = cpu_Cleanup,
      inst = c\<rparr>"

section \<open>Memory workload (package plugins, memory stress)\<close>

record MemoryStressConfig =
  AllocSize :: string
  Pattern :: string
  AccessType :: string
  mem_Workers :: int
  ChunkSize :: string
  AccessDelay :: int

text \<open>\<^verbatim>\<open>MemoryStressPlugin\<close>; of its metrics, the two counters that \<^verbatim>\<open>Execute\<close> resets
  (\<open>AllocatedMB\<close>, \<open>AccessCount\<close>); the rates computed by its metrics goroutine are left
  out. A chunk is a list of bytes.\<close>

record MemoryStressPlugin =
  mem_config :: MemoryStressConfig
  AllocatedMB :: int
  AccessCount :: int
  allocations :: "8 word list list"
  mem_stopChan :: bool
  allocSizeMB :: int
  chunkSizeMB :: int

definition NewMemoryStressPlugin :: MemoryStressPlugin where
  "NewMemoryStressPlugin =
     \<lparr>mem_config = \<lparr>AllocSize = [], Pattern = [], AccessType = [], mem_Workers = 0,
                     ChunkSize = [], AccessDelay = 0\<rparr>,
      AllocatedMB = 0, AccessCount = 0, allocations = [], mem_stopChan = False,
      allocSizeMB = 0, chunkSizeMB = 0\<rparr>"












definition mem_Cleanup :: "MemoryStressPlugin \<Rightarrow> error option outcome \<times> MemoryStressPlugin" where
  "mem_Cleanup m =
     (case close_chan (mem_stopChan m) of
        Panics v \<Rightarrow> (Panics v, m)
      | Returns b \<Rightarrow> (Returns None, m\<lparr>mem_stopChan := b, allocations := []\<rparr>))"

section \<open>I/O workload (internal/plugins/io_stress.go)\<close>

record IOStressConfig =
  FileSize :: string
  BlockSize :: string
  Operations :: string
  io_Workers :: int
  Fsync :: bool
  Direct :: bool
  TempDir :: string
  Sequential :: bool
  ReadWriteRatio :: real

text \<open>\<^verbatim>\<open>IOStressPlugin\<close>, without its metrics.\<close>

record IOStressPlugin =
  io_config :: IOStressConfig
  testFiles :: "string list"
  io_stopChan :: bool
  fileSizeBytes :: int
  blockSizeBytes :: int

definition NewIOStressPlugin :: IOStressPlugin where
  "NewIOStressPlugin =
     \<lparr>io_config = \<lparr>FileSize = [], BlockSize = [], Operations = [], io_Workers = 0,
                    Fsync = False, Direct = False, TempDir = [], Sequential = False,
                    ReadWriteRatio = 0\<rparr>,
      testFiles = [], io_stopChan = False, fileSizeBytes = 0, blockSizeBytes = 0\<rparr>"

definition parseSize ::
  "(string \<Rightarrow> string) \<Rightarrow> (string \<Rightarrow> error + int) \<Rightarrow> string \<Rightarrow> error + int" where
  "parseSize unicodeUpper parseInt size0 =
     (let size1 = TrimSpace (ToUpper unicodeUpper size0);
          (multiplier, size2) =
            (if HasSuffix size1 ''GB'' then (1024 * 1024 * 1024, TrimSuffix size1 ''GB'')
             else if HasSuffix size1 ''MB'' then (1024 * 1024, TrimSuffix size1 ''MB'')
             else if HasSuffix size1 ''KB'' then (1024, TrimSuffix size1 ''KB'')
             else if HasSuffix size1 ''B'' then (1, TrimSuffix size1 ''B'')
             else (1, size1))
      in case parseInt size2 of
           Inl err \<Rightarrow> Inl (Text ''invalid size value: %w'' [TextArg err])
         | Inr v \<Rightarrow> Inr (wrap64 (v * multiplier)))"

text \<open>\<^verbatim>\<open>Initialize\<close> of the I/O plugin; \<open>notExist dir\<close> says whether \<^verbatim>\<open>os.Stat(dir)\<close> fails
  with an error for which \<^verbatim>\<open>os.IsNotExist\<close> holds.\<close>

definition io_Initialize ::
  "IOStressConfig decoded \<Rightarrow> (string \<Rightarrow> string) \<Rightarrow> (string \<Rightarrow> error + int) \<Rightarrow>
     (string \<Rightarrow> bool) \<Rightarrow> IOStressPlugin \<Rightarrow> error option \<times> IOStressPlugin" where
  "io_Initialize dec unicodeUpper parseInt notExist p =
     (case dec of
        MarshalError err \<Rightarrow> (Some (Text ''failed to marshal config: %w'' [TextArg err]), p)
      | UnmarshalError err cfg \<Rightarrow>
          (Some (Text ''failed to unmarshal config: %w'' [TextArg err]), p\<lparr>io_config := cfg\<rparr>)
      | Decoded cfg \<Rightarrow>
          (let cfg1 = (if FileSize cfg = [] then cfg\<lparr>FileSize := ''1GB''\<rparr> else cfg);
               cfg2 = (if BlockSize cfg1 = [] then cfg1\<lparr>BlockSize := ''64KB''\<rparr> else cfg1);
               cfg3 = (if Operations cfg2 = [] then cfg2\<lparr>Operations := ''mixed''\<rparr> else cfg2);
               cfg4 = (if io_Workers cfg3 \<le> 0 then cfg3\<lparr>io_Workers := 4\<rparr> else cfg3);
               cfg5 = (if TempDir cfg4 = [] then cfg4\<lparr>TempDir := ''/tmp''\<rparr> else cfg4);
               cfg6 = (if ReadWriteRatio cfg5 \<le> 0 then cfg5\<lparr>ReadWriteRatio := 1 / 2\<rparr> else cfg5);
               p1 = p\<lparr>io_config := cfg6\<rparr>
           in case parseSize unicodeUpper parseInt (FileSize cfg6) of
                Inl err \<Rightarrow> (Some (Text ''invalid file_size: %w'' [TextArg err]), p1\<lparr>fileSizeBytes := 0\<rparr>)
              | Inr f \<Rightarrow>
                  (case parseSize unicodeUpper parseInt (BlockSize cfg6) of
                     Inl err \<Rightarrow>
                       (Some (Text ''invalid block_size: %w'' [TextArg err]),
                        p1\<lparr>fileSizeBytes := f, blockSizeBytes := 0\<rparr>)
                   | Inr b \<Rightarrow>
                       (if notExist (TempDir cfg6)
                        then Some (Text ''temp directory does not exist: %s'' [StrArg (TempDir cfg6)])
                        else None,
                        p1\<lparr>fileSizeBytes := f, blockSizeBytes := b\<rparr>))))"

text \<open>\<^verbatim>\<open>performIOOperation\<close>, as the operation it dispatches to: \<^verbatim>\<open>performRead\<close>,
  \<^verbatim>\<open>performWrite\<close>, or neither (the error for an unknown operation). \<open>nano\<close> is the
  reading \<^verbatim>\<open>time.Now().UnixNano()\<close>.\<close>

datatype io_dispatch = PerformRead | PerformWrite | UnknownOperation error

definition performIOOperation :: "IOStressPlugin \<Rightarrow> int \<Rightarrow> io_dispatch" where
  "performIOOperation p nano =
     (let operation0 = Operations (io_config p);
          operation =
            (if operation0 = ''mixed'' then
               if real_of_int (nano smod 1000) / 1000 < ReadWriteRatio (io_config p)
               then ''read'' else ''write''
             else operation0)
      in if operation = ''read'' then PerformRead
         else if operation = ''write'' then PerformWrite
         else UnknownOperation (Text ''unknown operation: %s'' [StrArg operation]))"

section \<open>Notions of the specification and example inputs\<close>

text \<open>A reading exceeds a limit when the accessor succeeded and the value is above the
  limit; \<open>breached\<close> lists the metrics of \<^verbatim>\<open>CheckSafetyLimits\<close> whose reading exceeds its
  limit, in the order CPU, memory, disk, network.\<close>

definition exceeds :: "real option \<Rightarrow> real \<Rightarrow> bool" where
  "exceeds reading limit = (case reading of None \<Rightarrow> False | Some x \<Rightarrow> x > limit)"

definition breached :: "SystemMonitor \<Rightarrow> SafetyLimits \<Rightarrow> string list" where
  "breached sm limits =
     (if exceeds (GetCPUUsage sm) (MaxCPUPercent limits) then [''cpu''] else []) @
     (if exceeds (GetMemoryUsage sm) (MaxMemoryPercent limits) then [''memory''] else []) @
     (if exceeds (GetDiskUsage sm) (MaxDiskPercent limits) then [''disk''] else []) @
     (if exceeds (GetNetworkUsage sm) (MaxNetworkMbps limits) then [''network''] else [])"

text \<open>The default monitor configuration (\<^verbatim>\<open>NewMonitor\<close> applied to a zero \<^verbatim>\<open>Config\<close>) with
  nothing recorded yet.\<close>

definition defaultMonitor :: Monitor where
  "defaultMonitor =
     \<lparr>config = \<lparr>AlertThreshold = 85, EmergencyThreshold = 95, MaxViolationsPerMin = 5\<rparr>,
      emergencyStop = [], violations = [], alerts = []\<rparr>"

text \<open>A probe reading 97% CPU and 90% memory (disk 20%, network 1 Mbps, 30 degrees), and
  the limits 80% CPU, 85% memory, 90% disk, 10 Mbps.\<close>

definition busyProbe :: SystemMonitor where
  "busyProbe = \<lparr>GetCPUUsage = Some 97, GetMemoryUsage = Some 90, GetDiskUsage = Some 20,
                 GetNetworkUsage = Some 1, GetSystemTemperature = Some 30\<rparr>"

definition someLimits :: SafetyLimits where
  "someLimits = \<lparr>MaxCPUPercent = 80, MaxMemoryPercent = 85, MaxDiskPercent = 90,
                  MaxNetworkMbps = 10\<rparr>"

text \<open>The number of violations in a list that a predicate on severities counts and that
  were recorded less than a minute before \<open>now\<close>; the two reasons of an emergency stop.\<close>

definition recentCount :: "(Severity \<Rightarrow> bool) \<Rightarrow> Violation list \<Rightarrow> int \<Rightarrow> nat" where
  "recentCount counted vs now =
     length (filter (\<lambda>v. counted (Severity v) \<and> now - Timestamp v < Minute) vs)"

definition tooManyViolations :: "nat \<Rightarrow> message" where
  "tooManyViolations n = Text ''Too many violations: %d in last minute'' [IntArg (int n)]"

definition criticalTemperature :: "real \<Rightarrow> message" where
  "criticalTemperature temp =
     Text (''Critical temperature: %.1f'' @ degree_sign @ ''C'') [FloatArg temp]"

definition networkWarning :: Violation where
  "networkWarning =
     \<lparr>Type = ''network'', CurrentValue = 15, Limit = 10, Severity = SeverityWarning,
      Message = Text ''Network usage %.1f Mbps exceeds limit %.1f Mbps'' [FloatArg 15, FloatArg 10],
      Timestamp = 0, Critical = False\<rparr>"

text \<open>A probe whose only breach is the network rate, 15 Mbps against the limit of 10, and
  the monitor after six calls of \<^verbatim>\<open>CheckSafetyLimits\<close> against it at instant 0: each call
  records the Warning above.\<close>

definition networkProbe :: SystemMonitor where
  "networkProbe = \<lparr>GetCPUUsage = Some 50, GetMemoryUsage = Some 40, GetDiskUsage = Some 20,
                    GetNetworkUsage = Some 15, GetSystemTemperature = Some 30\<rparr>"

primrec checkTimes :: "nat \<Rightarrow> Monitor \<Rightarrow> Monitor" where
  "checkTimes 0 m = m"
| "checkTimes (Suc n) m = checkTimes n (snd (CheckSafetyLimits m networkProbe someLimits 0 0))"

definition sixWarnings :: Monitor where
  "sixWarnings = checkTimes 6 defaultMonitor"

definition coolProbe :: "real \<Rightarrow> SystemMonitor" where
  "coolProbe temp = \<lparr>GetCPUUsage = Some 50, GetMemoryUsage = Some 40, GetDiskUsage = Some 20,
                 GetNetworkUsage = Some 1, GetSystemTemperature = Some temp\<rparr>"

definition smallMemStats :: MemStats where
  "smallMemStats = \<lparr>Sys = 1024, HeapAlloc = 512\<rparr>"

text \<open>A cached sample, and a tick on which \<^verbatim>\<open>cpu.Percent\<close> fails while the other
  accessors succeed.\<close>

definition cachedSample :: Collector where
  "cachedSample =
     \<lparr>metrics = zeroSystemMetrics\<lparr>Timestamp_sys := 1, CPU_Usage := 50, CPU_Cores := 8,
                  Memory_Usage := 40, Disk_Usage := 20\<rparr>,
      isCollecting = True\<rparr>"

definition cpuFailsProbe :: Probe where
  "cpuFailsProbe =
     \<lparr>cpu_Percent = None, cpu_Counts = Some 8,
      mem_VirtualMemory = Some \<lparr>vm_Total = 100, vm_Used = 40, vm_Available = 60, vm_UsedPercent = 40\<rparr>,
      disk_Usage = Some \<lparr>du_Total = 100, du_Used = 20, du_Free = 80, du_UsedPercent = 20\<rparr>,
      net_IOCounters = Some [\<lparr>io_BytesSent = 7, io_BytesRecv = 9\<rparr>]\<rparr>"

text \<open>An orchestrator whose registry holds the CPU plugin (four CPUs; a nil
  configuration decodes to the struct as it is), and on it the execution \<open>e1\<close> of a
  two-second test with an empty plugin configuration, started at instant 0 and set to
  Running by its goroutine.\<close>

definition cpuTestConfig :: TestConfiguration where
  "cpuTestConfig = \<lparr>Plugin = ''cpu-stress'', RawConfig = []\<rparr>"

definition cpuPlugin :: "(unit, CPUStressPlugin) StressPlugin" where
  "cpuPlugin = cpuStressPlugin (\<lambda>j cfg. Decoded cfg) 4 False NewCPUStressPlugin"

definition registry :: "(unit, CPUStressPlugin) PluginManager" where
  "registry = \<lparr>plugins = [''cpu-stress'' \<mapsto> cpuPlugin]\<rparr>"

definition freshOrchestrator :: "(unit, CPUStressPlugin) TestOrchestrator" where
  "freshOrchestrator = \<lparr>pluginManager = registry, executions = Map.empty\<rparr>"

definition params2s :: TestParams where
  "params2s = \<lparr>Duration = 2 * Second, Intensity = 50, Concurrency = 1\<rparr>"

definition runningOrchestrator :: "(unit, CPUStressPlugin) TestOrchestrator" where
  "runningOrchestrator =
     goroutine_begin (snd (StartTest freshOrchestrator cpuTestConfig params2s ''e1'' 0 0)) ''e1''"

text \<open>The same with a registry whose CPU plugin rejects the raw configuration \<^verbatim>\<open>[1]\<close> (a
  JSON array does not unmarshal into the configuration struct): the execution while
  Running, and the orchestrator after a \<^verbatim>\<open>StopTest\<close> at instant 5.\<close>

definition arrayConfig :: TestConfiguration where
  "arrayConfig = \<lparr>Plugin = ''cpu-stress'', RawConfig = ''[1]''\<rparr>"

definition cannotUnmarshal :: error where
  "cannotUnmarshal =
     Text ''json: cannot unmarshal array into Go value of type plugins.CPUStressConfig'' []"

definition strictRegistry :: "(unit, CPUStressPlugin) PluginManager" where
  "strictRegistry =
     \<lparr>plugins = [''cpu-stress'' \<mapsto>
        cpuStressPlugin (\<lambda>j cfg. case j of None \<Rightarrow> Decoded cfg
                                  | Some u \<Rightarrow> UnmarshalError cannotUnmarshal cfg)
          4 False NewCPUStressPlugin]\<rparr>"

definition stoppedEarly :: "(unit, CPUStressPlugin) TestOrchestrator" where
  "stoppedEarly =
     snd (StopTest
       (goroutine_begin
          (snd (StartTest \<lparr>pluginManager = strictRegistry, executions = Map.empty\<rparr>
                  arrayConfig params2s ''e1'' 0 0)) ''e1'')
       ''e1'' 5)"

definition strictRunning :: TestExecution where
  "strictRunning =
     \<lparr>ID = ''e1'', TestConfig = arrayConfig, Status = StatusRunning, StartTime = 0,
      EndTime = None, Ctx = WithTimeout 0 (2 * Second), ErrorMessage = None\<rparr>"

text \<open>An I/O configuration in mixed mode with a given read/write ratio.\<close>

definition mixedConfig :: "real \<Rightarrow> IOStressConfig" where
  "mixedConfig ratio =
     \<lparr>FileSize = ''1MB'', BlockSize = ''64KB'', Operations = ''mixed'', io_Workers = 1,
      Fsync = False, Direct = False, TempDir = ''/tmp'', Sequential = True,
      ReadWriteRatio = ratio\<rparr>"






section \<open>CheckSafetyLimits reports at most one violation, by priority\<close>

lemma cpuViolation_Type: "cpuViolation c sm limits now = Some v \<Longrightarrow> Type v = ''cpu''"
  by (auto simp: cpuViolation_def split: option.splits if_splits)

lemma cpuViolation_None: "(cpuViolation c sm limits now = None) = (\<not> exceeds (GetCPUUsage sm) (MaxCPUPercent limits))"
  by (auto simp: cpuViolation_def exceeds_def split: option.splits if_splits)

lemma memoryViolation_Type: "memoryViolation c sm limits now = Some v \<Longrightarrow> Type v = ''memory''"
  by (auto simp: memoryViolation_def split: option.splits if_splits)

lemma memoryViolation_None: "(memoryViolation c sm limits now = None) = (\<not> exceeds (GetMemoryUsage sm) (MaxMemoryPercent limits))"
  by (auto simp: memoryViolation_def exceeds_def split: option.splits if_splits)

lemma diskViolation_Type: "diskViolation c sm limits now = Some v \<Longrightarrow> Type v = ''disk''"
  by (auto simp: diskViolation_def split: option.splits if_splits)

lemma diskViolation_None: "(diskViolation c sm limits now = None) = (\<not> exceeds (GetDiskUsage sm) (MaxDiskPercent limits))"
  by (auto simp: diskViolation_def exceeds_def split: option.splits if_splits)

lemma networkViolation_Type: "networkViolation sm limits now = Some v \<Longrightarrow> Type v = ''network''"
  by (auto simp: networkViolation_def split: option.splits if_splits)

lemma networkViolation_None: "(networkViolation sm limits now = None) = (\<not> exceeds (GetNetworkUsage sm) (MaxNetworkMbps limits))"
  by (auto simp: networkViolation_def exceeds_def split: option.splits if_splits)

lemma violations_recordViolation:
  "violations (recordViolation m v now) = filter (\<lambda>x. now - Hour < Timestamp x) (violations m @ [v])"
  by (simp add: recordViolation_def Let_def)

lemma alerts_recordViolation: "length (alerts (recordViolation m v now)) = length (alerts m) + 1"
  by (simp add: recordViolation_def Let_def)

lemma CheckSafetyLimits_cases:
  "CheckSafetyLimits m sm limits now now' = (None, m) \<and> breached sm limits = [] \<or>
   (\<exists>v k ks. CheckSafetyLimits m sm limits now now' = (Some v, recordViolation m v now') \<and>
       breached sm limits = k # ks \<and> Type v = k)"
proof (cases "cpuViolation (config m) sm limits now")
  case (Some v)
  then show ?thesis
    using cpuViolation_Type[OF Some] cpuViolation_None[of "config m" sm limits now]
    by (simp add: CheckSafetyLimits_def breached_def)
next
  case c: None
  show ?thesis
  proof (cases "memoryViolation (config m) sm limits now")
    case (Some v)
    then show ?thesis
      using c memoryViolation_Type[OF Some] cpuViolation_None[of "config m" sm limits now]
        memoryViolation_None[of "config m" sm limits now]
      by (simp add: CheckSafetyLimits_def breached_def)
  next
    case me: None
    show ?thesis
    proof (cases "diskViolation (config m) sm limits now")
      case (Some v)
      then show ?thesis
        using c me diskViolation_Type[OF Some] cpuViolation_None[of "config m" sm limits now]
          memoryViolation_None[of "config m" sm limits now]
          diskViolation_None[of "config m" sm limits now]
        by (simp add: CheckSafetyLimits_def breached_def)
    next
      case d: None
      show ?thesis
      proof (cases "networkViolation sm limits now")
        case (Some v)
        then show ?thesis
          using c me d networkViolation_Type[OF Some] cpuViolation_None[of "config m" sm limits now]
            memoryViolation_None[of "config m" sm limits now]
            diskViolation_None[of "config m" sm limits now]
            networkViolation_None[of sm limits now]
          by (simp add: CheckSafetyLimits_def breached_def)
      next
        case None
        then show ?thesis
          using c me d cpuViolation_None[of "config m" sm limits now]
            memoryViolation_None[of "config m" sm limits now]
            diskViolation_None[of "config m" sm limits now]
            networkViolation_None[of sm limits now]
          by (simp add: CheckSafetyLimits_def breached_def)
      qed
    qed
  qed
qed

lemma CheckSafetyLimits_temperature:
  "CheckSafetyLimits m (sm\<lparr>GetSystemTemperature := t\<rparr>) limits now now' =
   CheckSafetyLimits m sm limits now now'"
proof -
  have "cpuViolation (config m) (sm\<lparr>GetSystemTemperature := t\<rparr>) limits now =
        cpuViolation (config m) sm limits now"
    by (simp add: cpuViolation_def)
  moreover have "memoryViolation (config m) (sm\<lparr>GetSystemTemperature := t\<rparr>) limits now =
        memoryViolation (config m) sm limits now"
    by (simp add: memoryViolation_def)
  moreover have "diskViolation (config m) (sm\<lparr>GetSystemTemperature := t\<rparr>) limits now =
        diskViolation (config m) sm limits now"
    by (simp add: diskViolation_def)
  moreover have "networkViolation (sm\<lparr>GetSystemTemperature := t\<rparr>) limits now =
        networkViolation sm limits now"
    by (simp add: networkViolation_def)
  ultimately show ?thesis
    by (simp only: CheckSafetyLimits_def)
qed

lemma length_violations_recordViolation:
  "length (violations (recordViolation m v now)) \<le> length (violations m) + 1"
  using length_filter_le[of "\<lambda>x. now - Hour < Timestamp x" "violations m @ [v]"]
  by (simp only: violations_recordViolation length_append list.size)

text \<open>
  Claim C10. One call of \<^verbatim>\<open>CheckSafetyLimits\<close> returns at most one violation and records
  exactly the violation it returns: its type is the first metric, in the order CPU,
  memory, disk, network, whose reading exceeds its limit (none when no reading does, and
  then the monitor is unchanged), so a breach of a later metric leaves no trace when an
  earlier one breaches too; the violation list grows by at most one entry and one alert
  is sent for it; and the outcome does not depend on the temperature reading.
\<close>

theorem CheckSafetyLimits_at_most_one_by_priority:
  "(case CheckSafetyLimits m sm limits now now' of
      (r, m') \<Rightarrow>
        map_option Type r = (case breached sm limits of [] \<Rightarrow> None | k # ks \<Rightarrow> Some k) \<and>
        (case r of
           None \<Rightarrow> m' = m
         | Some v \<Rightarrow>
             violations m' = filter (\<lambda>x. now' - Hour < Timestamp x) (violations m @ [v]) \<and>
             length (alerts m') = length (alerts m) + 1) \<and>
        length (violations m') \<le> length (violations m) + 1) \<and>
   CheckSafetyLimits m (sm\<lparr>GetSystemTemperature := t\<rparr>) limits now now' =
     CheckSafetyLimits m sm limits now now'"
proof -
  from CheckSafetyLimits_cases[of m sm limits now now']
  consider (none) "CheckSafetyLimits m sm limits now now' = (None, m)" "breached sm limits = []"
    | (some) v k ks where "CheckSafetyLimits m sm limits now now' = (Some v, recordViolation m v now')"
        "breached sm limits = k # ks" "Type v = k"
    by blast
  then have "case CheckSafetyLimits m sm limits now now' of
      (r, m') \<Rightarrow>
        map_option Type r = (case breached sm limits of [] \<Rightarrow> None | k # ks \<Rightarrow> Some k) \<and>
        (case r of
           None \<Rightarrow> m' = m
         | Some v \<Rightarrow>
             violations m' = filter (\<lambda>x. now' - Hour < Timestamp x) (violations m @ [v]) \<and>
             length (alerts m') = length (alerts m) + 1) \<and>
        length (violations m') \<le> length (violations m) + 1"
  proof cases
    case none
    then show ?thesis by simp
  next
    case some
    then show ?thesis
      using length_violations_recordViolation[of m v now']
      by (simp add: violations_recordViolation alerts_recordViolation del: filter_append)
  qed
  then show ?thesis
    by (simp only: CheckSafetyLimits_temperature simp_thms)
qed


text \<open>The theorem at a probe where CPU and memory both exceed their limits: only the CPU
  violation is returned and recorded.\<close>

theorem CheckSafetyLimits_at_most_one_by_priority_witness:
  "map_option Type (fst (CheckSafetyLimits defaultMonitor busyProbe someLimits 5 6)) = Some ''cpu'' \<and>
   length (violations (snd (CheckSafetyLimits defaultMonitor busyProbe someLimits 5 6))) \<le> 1"
  using CheckSafetyLimits_at_most_one_by_priority[where m=defaultMonitor and sm=busyProbe
      and limits=someLimits and now=5 and now'=6 and t=None]
  by (simp add: breached_def exceeds_def busyProbe_def someLimits_def defaultMonitor_def
      split: prod.splits)


section \<open>The violation-rate gate of the monitor's tick\<close>

lemma emergencyStop_recordViolation: "emergencyStop (recordViolation m v now) = emergencyStop m"
  by (simp add: recordViolation_def Let_def)

lemma config_recordViolation: "config (recordViolation m v now) = config m"
  by (simp add: recordViolation_def Let_def)

lemma config_sendEmergencyStop: "config (sendEmergencyStop m r) = config m"
  by (simp add: sendEmergencyStop_def)

lemma violations_sendEmergencyStop: "violations (sendEmergencyStop m r) = violations m"
  by (simp add: sendEmergencyStop_def)

lemma emergencyStop_sendEmergencyStop:
  "emergencyStop (sendEmergencyStop m r) =
     emergencyStop m @ (if length (emergencyStop m) < 10 then [r] else [])"
  by (simp add: sendEmergencyStop_def)

lemma config_temperatureCheck: "config (temperatureCheck m sm now1 now2) = config m"
  by (simp add: temperatureCheck_def Let_def config_recordViolation config_sendEmergencyStop
      split: option.splits)

lemma emergencyStop_memoryPressureCheck:
  "emergencyStop (memoryPressureCheck m memStats now4 now5) = emergencyStop m"
  by (simp add: memoryPressureCheck_def emergencyStop_recordViolation)

lemma length_getRecentViolations:
  "length (getRecentViolations m Minute now) = recentCount (\<lambda>s. True) (violations m) now"
proof -
  have "filter (\<lambda>v. now - Minute < Timestamp v) (violations m) =
        filter (\<lambda>v. True \<and> now - Timestamp v < Minute) (violations m)"
    by (rule filter_cong) auto
  then show ?thesis
    by (simp only: getRecentViolations_def recentCount_def Let_def)
qed

lemma emergencyStop_violationRateCheck:
  "emergencyStop (violationRateCheck m now3) =
     emergencyStop m @
       (if int (recentCount (\<lambda>s. True) (violations m) now3) > MaxViolationsPerMin (config m)
           \<and> length (emergencyStop m) < 10
        then [tooManyViolations (recentCount (\<lambda>s. True) (violations m) now3)] else [])"
  by (simp add: violationRateCheck_def Let_def length_getRecentViolations
      emergencyStop_sendEmergencyStop tooManyViolations_def)

lemma check_network:
  "snd (CheckSafetyLimits m networkProbe someLimits 0 0) = recordViolation m networkWarning 0"
  by (simp add: CheckSafetyLimits_def cpuViolation_def memoryViolation_def diskViolation_def
      networkViolation_def networkProbe_def someLimits_def networkWarning_def)

lemma recordViolation_networkWarning:
  "\<forall>v \<in> set (violations m). - Hour < Timestamp v \<Longrightarrow>
   recordViolation m networkWarning 0 =
     m\<lparr>violations := violations m @ [networkWarning],
        alerts := alerts m @ [Alert (Type networkWarning) (Message networkWarning)
          (Severity networkWarning) (Timestamp networkWarning) (CurrentValue networkWarning)
          (Limit networkWarning) (Critical networkWarning)]\<rparr>"
  by (simp add: recordViolation_def Let_def networkWarning_def Hour_def Minute_def Second_def)

lemma checkTimes_fields:
  "\<forall>v \<in> set (violations m). - Hour < Timestamp v \<Longrightarrow>
   violations (checkTimes n m) = violations m @ replicate n networkWarning \<and>
   config (checkTimes n m) = config m \<and>
   emergencyStop (checkTimes n m) = emergencyStop m"
proof (induction n arbitrary: m)
  case 0
  show ?case by simp
next
  case (Suc n)
  let ?m = "recordViolation m networkWarning 0"
  have h: "- Hour < Timestamp networkWarning"
    by (simp add: networkWarning_def Hour_def Minute_def Second_def)
  have r: "violations ?m = violations m @ [networkWarning]" "config ?m = config m"
    "emergencyStop ?m = emergencyStop m"
    by (simp_all add: recordViolation_networkWarning[OF Suc.prems])
  have p: "\<forall>v \<in> set (violations ?m). - Hour < Timestamp v"
    using Suc.prems h r(1) by simp
  show ?case
    using Suc.IH[OF p] r by (simp add: check_network replicate_app_Cons_same)
qed

lemma sixWarnings_fields:
  "violations sixWarnings = replicate 6 networkWarning"
  "MaxViolationsPerMin (config sixWarnings) = 5" "emergencyStop sixWarnings = []"
proof -
  have "\<forall>v \<in> set (violations defaultMonitor). - Hour < Timestamp v"
    by (simp add: defaultMonitor_def)
  from checkTimes_fields[OF this, of 6]
  show "violations sixWarnings = replicate 6 networkWarning"
    "MaxViolationsPerMin (config sixWarnings) = 5" "emergencyStop sixWarnings = []"
    by (simp_all add: sixWarnings_def defaultMonitor_def)
qed

lemma temperatureCheck_cool: "temperatureCheck m (coolProbe 30) now1 now2 = m"
  by (simp add: temperatureCheck_def coolProbe_def)

lemma recentCount_sixWarnings_all: "recentCount (\<lambda>s. True) (violations sixWarnings) 1 = 6"
  by (simp add: recentCount_def sixWarnings_fields networkWarning_def Minute_def Second_def)

text \<open>
  Claim C2, as stated, fails: the tick counts every violation of the last minute,
  whatever its severity. With six Warning violations on record and no Error or Critical
  one, and \<^verbatim>\<open>max_violations_per_min\<close> = 5, the tick raises the emergency stop "Too many
  violations: 6 in last minute".
\<close>

theorem performSafetyCheck_violation_rate_counterexample:
  "recentCount (\<lambda>s. s = SeverityError \<or> s = SeverityCritical) (violations sixWarnings) 1 = 0 \<and>
   MaxViolationsPerMin (config sixWarnings) = 5 \<and>
   emergencyStop (performSafetyCheck sixWarnings (coolProbe 30) smallMemStats 1 1 1 1 1) =
     [tooManyViolations 6]"
proof -
  have a: "recentCount (\<lambda>s. s = SeverityError \<or> s = SeverityCritical) (violations sixWarnings) 1 = 0"
    by (simp add: recentCount_def sixWarnings_fields networkWarning_def)
  note b = sixWarnings_fields(2,3)
  have c: "emergencyStop (performSafetyCheck sixWarnings (coolProbe 30) smallMemStats 1 1 1 1 1) =
     [tooManyViolations 6]"
    by (simp add: performSafetyCheck_def emergencyStop_memoryPressureCheck temperatureCheck_cool
        emergencyStop_violationRateCheck recentCount_sixWarnings_all b)
  from a b c show ?thesis by simp
qed

text \<open>
  Claim C2, amended. On a safety-check tick the monitor raises an emergency stop with the
  reason "Too many violations: N in last minute" exactly when N, the number of violations
  of any severity (Warning and Info included) recorded less than 60 seconds before,
  among them a temperature violation recorded earlier on the same tick, exceeds
  \<^verbatim>\<open>max_violations_per_min\<close>; the signal is queued after the tick's temperature signal, if
  any, and only while the emergency channel holds fewer than 10 signals.
\<close>

theorem performSafetyCheck_violation_rate:
  "emergencyStop (performSafetyCheck m sm memStats now1 now2 now3 now4 now5) =
     (let m1 = temperatureCheck m sm now1 now2;
          n = recentCount (\<lambda>s. True) (violations m1) now3
      in emergencyStop m1 @
           (if int n > MaxViolationsPerMin (config m) \<and> length (emergencyStop m1) < 10
            then [tooManyViolations n] else []))"
proof -
  let ?m1 = "temperatureCheck m sm now1 now2"
  have "emergencyStop (performSafetyCheck m sm memStats now1 now2 now3 now4 now5) =
        emergencyStop (violationRateCheck ?m1 now3)"
    by (simp only: performSafetyCheck_def emergencyStop_memoryPressureCheck)
  also have "\<dots> = emergencyStop ?m1 @
       (if int (recentCount (\<lambda>s. True) (violations ?m1) now3) > MaxViolationsPerMin (config ?m1)
           \<and> length (emergencyStop ?m1) < 10
        then [tooManyViolations (recentCount (\<lambda>s. True) (violations ?m1) now3)] else [])"
    by (rule emergencyStop_violationRateCheck)
  finally show ?thesis
    by (simp only: config_temperatureCheck Let_def)
qed

text \<open>The theorem at the six warnings: the channel holds the one signal, with N = 6.\<close>

theorem performSafetyCheck_violation_rate_witness:
  "emergencyStop (performSafetyCheck sixWarnings (coolProbe 30) smallMemStats 1 1 1 1 1) =
     [Text ''Too many violations: %d in last minute'' [IntArg 6]]"
  using performSafetyCheck_violation_rate[where m=sixWarnings and sm="coolProbe 30"
      and memStats=smallMemStats and ?now1.0=1 and ?now2.0=1 and ?now3.0=1 and ?now4.0=1 and ?now5.0=1]
  by (simp add: temperatureCheck_cool recentCount_sixWarnings_all tooManyViolations_def
      sixWarnings_fields(2,3))



section \<open>The temperature thresholds of the monitor's tick\<close>

lemma temperatureCheck_low:
  assumes "GetSystemTemperature sm = Some temp" "temp \<le> 85"
  shows "temperatureCheck m sm now1 now2 = m"
  using assms by (simp add: temperatureCheck_def)

lemma temperatureCheck_above:
  assumes "GetSystemTemperature sm = Some temp" "85 < temp"
  shows "temperatureCheck m sm now1 now2 =
     (let v = \<lparr>Type = ''temperature'', CurrentValue = temp, Limit = 85,
                Severity = SeverityCritical,
                Message = Text (''System temperature %.1f'' @ degree_sign @ ''C is too high'')
                            [FloatArg temp],
                Timestamp = now1, Critical = (90 < temp)\<rparr>
      in if 90 < temp then sendEmergencyStop (recordViolation m v now2) (criticalTemperature temp)
         else recordViolation m v now2)"
  using assms by (simp add: temperatureCheck_def Let_def criticalTemperature_def)

lemma fields_recordViolation:
  "config (recordViolation m v now) = config m"
  "emergencyStop (recordViolation m v now) = emergencyStop m"
  "violations (recordViolation m v now) = filter (\<lambda>x. now - Hour < Timestamp x) (violations m @ [v])"
  "alerts (recordViolation m v now) =
     alerts m @ [Alert (Type v) (Message v) (Severity v) (Timestamp v) (CurrentValue v) (Limit v)
                   (Critical v)]"
  by (simp_all add: recordViolation_def Let_def)

lemma fields_sendEmergencyStop:
  "config (sendEmergencyStop m r) = config m"
  "emergencyStop (sendEmergencyStop m r) =
     emergencyStop m @ (if length (emergencyStop m) < 10 then [r] else [])"
  "violations (sendEmergencyStop m r) = violations m"
  "alerts (sendEmergencyStop m r) = alerts m"
  by (simp_all add: sendEmergencyStop_def)

lemma violationRateCheck_few:
  "int (length (violations m)) \<le> MaxViolationsPerMin (config m) \<Longrightarrow> violationRateCheck m now = m"
proof -
  assume a: "int (length (violations m)) \<le> MaxViolationsPerMin (config m)"
  have "length (getRecentViolations m (1 * Minute) now) \<le> length (violations m)"
    by (simp add: getRecentViolations_def Let_def)
  with a show ?thesis by (simp add: violationRateCheck_def Let_def)
qed

lemma memoryPressureCheck_small: "memoryPressureCheck m smallMemStats now4 now5 = m"
  by (simp add: memoryPressureCheck_def smallMemStats_def)

lemma tick_violations_cool:
  "violations (performSafetyCheck defaultMonitor sm smallMemStats 1 1 1 1 1) =
   violations (temperatureCheck defaultMonitor sm 1 1)"
  by (simp add: performSafetyCheck_def memoryPressureCheck_def smallMemStats_def
      violationRateCheck_def Let_def violations_sendEmergencyStop)

text \<open>
  Claim C3, as stated, fails on three points: a tick with a reading of exactly 85 degrees
  records nothing; one with 87 degrees records a violation of severity Critical, not
  Warning; one with exactly 90 degrees raises no emergency stop.
\<close>

theorem performSafetyCheck_temperature_counterexample:
  "violations (performSafetyCheck defaultMonitor (coolProbe 85) smallMemStats 1 1 1 1 1) = [] \<and>
   map Severity (violations (performSafetyCheck defaultMonitor (coolProbe 87) smallMemStats 1 1 1 1 1))
     = [SeverityCritical] \<and>
   emergencyStop (performSafetyCheck defaultMonitor (coolProbe 90) smallMemStats 1 1 1 1 1) = []"
proof -
  have a: "violations (performSafetyCheck defaultMonitor (coolProbe 85) smallMemStats 1 1 1 1 1) = []"
    unfolding tick_violations_cool
    by (simp add: temperatureCheck_def coolProbe_def defaultMonitor_def)
  have b: "map Severity (violations (performSafetyCheck defaultMonitor (coolProbe 87) smallMemStats 1 1 1 1 1))
     = [SeverityCritical]"
    unfolding tick_violations_cool
    by (simp add: temperatureCheck_def coolProbe_def defaultMonitor_def
        recordViolation_def Let_def Hour_def Minute_def Second_def)
  have c: "emergencyStop (performSafetyCheck defaultMonitor (coolProbe 90) smallMemStats 1 1 1 1 1) = []"
    unfolding performSafetyCheck_def emergencyStop_memoryPressureCheck
      emergencyStop_violationRateCheck
    by (simp add: temperatureCheck_def coolProbe_def
        defaultMonitor_def recordViolation_def Let_def recentCount_def Hour_def Minute_def Second_def)
  from a b c show ?thesis by simp
qed

text \<open>
  Claim C3, amended. A tick of the monitor (\<^verbatim>\<open>performSafetyCheck\<close>) reads the temperature
  first and compares strictly. With \<open>m1\<close> the monitor that this first step leaves: for a
  reading of at most 85 degrees \<open>m1\<close> is the monitor as it was (no temperature violation,
  no temperature emergency stop); for a reading above 85 and at most 90 degrees a
  temperature violation of severity Critical whose critical flag is false has been
  recorded and its alert sent, and no emergency stop raised; for a reading above 90
  degrees a temperature violation of severity Critical whose critical flag is true has
  been recorded and its alert sent, and an emergency stop raised with the reason
  "Critical temperature: ..." (queued only while the channel holds fewer than 10
  signals). The tick then runs its violation-rate check and its memory-pressure check on
  \<open>m1\<close>: the tick as a whole may in addition raise a "Too many violations" stop and record
  a memory-pressure violation.
\<close>

theorem performSafetyCheck_temperature_thresholds:
  assumes "GetSystemTemperature sm = Some temp"
  shows "\<exists>m1. performSafetyCheck m sm memStats now1 now2 now3 now4 now5 =
                 memoryPressureCheck (violationRateCheck m1 now3) memStats now4 now5 \<and>
              config m1 = config m \<and>
              (temp \<le> 85 \<longrightarrow> m1 = m) \<and>
              (85 < temp \<and> temp \<le> 90 \<longrightarrow>
                 (\<exists>v. Type v = ''temperature'' \<and> CurrentValue v = temp \<and> Limit v = 85 \<and>
                      Severity v = SeverityCritical \<and> \<not> Critical v \<and> Timestamp v = now1 \<and>
                      violations m1 = filter (\<lambda>x. now2 - Hour < Timestamp x) (violations m @ [v]) \<and>
                      alerts m1 = alerts m @ [Alert (Type v) (Message v) (Severity v) (Timestamp v)
                                                (CurrentValue v) (Limit v) (Critical v)] \<and>
                      emergencyStop m1 = emergencyStop m)) \<and>
              (90 < temp \<longrightarrow>
                 (\<exists>v. Type v = ''temperature'' \<and> CurrentValue v = temp \<and> Limit v = 85 \<and>
                      Severity v = SeverityCritical \<and> Critical v \<and> Timestamp v = now1 \<and>
                      violations m1 = filter (\<lambda>x. now2 - Hour < Timestamp x) (violations m @ [v]) \<and>
                      alerts m1 = alerts m @ [Alert (Type v) (Message v) (Severity v) (Timestamp v)
                                                (CurrentValue v) (Limit v) (Critical v)] \<and>
                      emergencyStop m1 =
                        emergencyStop m @
                          (if length (emergencyStop m) < 10 then [criticalTemperature temp] else [])))"
proof -
  let ?m1 = "temperatureCheck m sm now1 now2"
  let ?v = "\<lparr>Type = ''temperature'', CurrentValue = temp, Limit = 85,
              Severity = SeverityCritical,
              Message = Text (''System temperature %.1f'' @ degree_sign @ ''C is too high'')
                          [FloatArg temp],
              Timestamp = now1, Critical = (90 < temp)\<rparr>"
  have tick: "performSafetyCheck m sm memStats now1 now2 now3 now4 now5 =
              memoryPressureCheck (violationRateCheck ?m1 now3) memStats now4 now5"
    by (simp only: performSafetyCheck_def)
  have cfg: "config ?m1 = config m"
    by (rule config_temperatureCheck)
  have low: "temp \<le> 85 \<longrightarrow> ?m1 = m"
    using temperatureCheck_low[OF assms] by blast
  have mid: "violations ?m1 = filter (\<lambda>x. now2 - Hour < Timestamp x) (violations m @ [?v]) \<and>
             alerts ?m1 = alerts m @ [Alert (Type ?v) (Message ?v) (Severity ?v) (Timestamp ?v)
                                        (CurrentValue ?v) (Limit ?v) (Critical ?v)] \<and>
             emergencyStop ?m1 = emergencyStop m"
    if "85 < temp" "temp \<le> 90"
  proof -
    have "\<not> 90 < temp" using that by simp
    with temperatureCheck_above[OF assms that(1), of m now1 now2]
    have "?m1 = recordViolation m ?v now2"
      by (simp only: Let_def if_False)
    then show ?thesis
      by (simp only: fields_recordViolation)
  qed
  have high: "violations ?m1 = filter (\<lambda>x. now2 - Hour < Timestamp x) (violations m @ [?v]) \<and>
             alerts ?m1 = alerts m @ [Alert (Type ?v) (Message ?v) (Severity ?v) (Timestamp ?v)
                                        (CurrentValue ?v) (Limit ?v) (Critical ?v)] \<and>
             emergencyStop ?m1 =
               emergencyStop m @
                 (if length (emergencyStop m) < 10 then [criticalTemperature temp] else [])"
    if "90 < temp"
  proof -
    have "85 < temp" using that by simp
    from temperatureCheck_above[OF assms this, of m now1 now2] that
    have "?m1 = sendEmergencyStop (recordViolation m ?v now2) (criticalTemperature temp)"
      by (simp only: Let_def if_True)
    then show ?thesis
      by (simp only: fields_sendEmergencyStop fields_recordViolation)
  qed
  have midE: "85 < temp \<and> temp \<le> 90 \<longrightarrow>
                 (\<exists>v. Type v = ''temperature'' \<and> CurrentValue v = temp \<and> Limit v = 85 \<and>
                      Severity v = SeverityCritical \<and> \<not> Critical v \<and> Timestamp v = now1 \<and>
                      violations ?m1 = filter (\<lambda>x. now2 - Hour < Timestamp x) (violations m @ [v]) \<and>
                      alerts ?m1 = alerts m @ [Alert (Type v) (Message v) (Severity v) (Timestamp v)
                                                (CurrentValue v) (Limit v) (Critical v)] \<and>
                      emergencyStop ?m1 = emergencyStop m)"
  proof
    assume a: "85 < temp \<and> temp \<le> 90"
    then have "Type ?v = ''temperature'' \<and> CurrentValue ?v = temp \<and> Limit ?v = 85 \<and>
          Severity ?v = SeverityCritical \<and> \<not> Critical ?v \<and> Timestamp ?v = now1"
      by simp
    with mid a show "\<exists>v. Type v = ''temperature'' \<and> CurrentValue v = temp \<and> Limit v = 85 \<and>
                      Severity v = SeverityCritical \<and> \<not> Critical v \<and> Timestamp v = now1 \<and>
                      violations ?m1 = filter (\<lambda>x. now2 - Hour < Timestamp x) (violations m @ [v]) \<and>
                      alerts ?m1 = alerts m @ [Alert (Type v) (Message v) (Severity v) (Timestamp v)
                                                (CurrentValue v) (Limit v) (Critical v)] \<and>
                      emergencyStop ?m1 = emergencyStop m"
      by blast
  qed
  have highE: "90 < temp \<longrightarrow>
                 (\<exists>v. Type v = ''temperature'' \<and> CurrentValue v = temp \<and> Limit v = 85 \<and>
                      Severity v = SeverityCritical \<and> Critical v \<and> Timestamp v = now1 \<and>
                      violations ?m1 = filter (\<lambda>x. now2 - Hour < Timestamp x) (violations m @ [v]) \<and>
                      alerts ?m1 = alerts m @ [Alert (Type v) (Message v) (Severity v) (Timestamp v)
                                                (CurrentValue v) (Limit v) (Critical v)] \<and>
                      emergencyStop ?m1 =
                        emergencyStop m @
                          (if length (emergencyStop m) < 10 then [criticalTemperature temp] else []))"
  proof
    assume a: "90 < temp"
    then have "Type ?v = ''temperature'' \<and> CurrentValue ?v = temp \<and> Limit ?v = 85 \<and>
          Severity ?v = SeverityCritical \<and> Critical ?v \<and> Timestamp ?v = now1"
      by simp
    with high[OF a] show "\<exists>v. Type v = ''temperature'' \<and> CurrentValue v = temp \<and> Limit v = 85 \<and>
                      Severity v = SeverityCritical \<and> Critical v \<and> Timestamp v = now1 \<and>
                      violations ?m1 = filter (\<lambda>x. now2 - Hour < Timestamp x) (violations m @ [v]) \<and>
                      alerts ?m1 = alerts m @ [Alert (Type v) (Message v) (Severity v) (Timestamp v)
                                                (CurrentValue v) (Limit v) (Critical v)] \<and>
                      emergencyStop ?m1 =
                        emergencyStop m @
                          (if length (emergencyStop m) < 10 then [criticalTemperature temp] else [])"
      by blast
  qed
  from tick cfg low midE highE show ?thesis by blast
qed

text \<open>The theorem at a reading of 87 degrees, few violations and little memory in use:
  the tick leaves the one temperature violation and no emergency stop.\<close>

theorem performSafetyCheck_temperature_thresholds_witness:
  "GetSystemTemperature (coolProbe 87) = Some 87 \<and>
   (\<exists>v. Type v = ''temperature'' \<and> CurrentValue v = 87 \<and> Limit v = 85 \<and>
        Severity v = SeverityCritical \<and> \<not> Critical v \<and> Timestamp v = 5 \<and>
        violations (performSafetyCheck defaultMonitor (coolProbe 87) smallMemStats 5 6 7 8 9) = [v] \<and>
        emergencyStop (performSafetyCheck defaultMonitor (coolProbe 87) smallMemStats 5 6 7 8 9) = [])"
proof -
  have h: "GetSystemTemperature (coolProbe 87) = Some 87"
    by (simp add: coolProbe_def)
  from performSafetyCheck_temperature_thresholds[OF h, of defaultMonitor smallMemStats 5 6 7 8 9]
  obtain m1 v where
    t: "performSafetyCheck defaultMonitor (coolProbe 87) smallMemStats 5 6 7 8 9 =
          memoryPressureCheck (violationRateCheck m1 7) smallMemStats 8 9"
    and c: "config m1 = config defaultMonitor"
    and v: "Type v = ''temperature''" "CurrentValue v = 87" "Limit v = 85"
      "Severity v = SeverityCritical" "\<not> Critical v" "Timestamp v = 5"
    and vs: "violations m1 = filter (\<lambda>x. 6 - Hour < Timestamp x) (violations defaultMonitor @ [v])"
    and es: "emergencyStop m1 = emergencyStop defaultMonitor"
    by auto
  have vs': "violations m1 = [v]"
    using vs v(6) by (simp add: defaultMonitor_def Hour_def Minute_def Second_def)
  have "int (length (violations m1)) \<le> MaxViolationsPerMin (config m1)"
    unfolding c vs' by (simp add: defaultMonitor_def)
  then have "performSafetyCheck defaultMonitor (coolProbe 87) smallMemStats 5 6 7 8 9 = m1"
    unfolding t by (simp add: violationRateCheck_few memoryPressureCheck_small)
  with vs' es v h show ?thesis
    by (auto simp: defaultMonitor_def)
qed

section \<open>A failed probe read and the collector's cached snapshot\<close>

lemma collect_independent:
  "metrics (collectSystemMetrics c probe now) = metrics (collectSystemMetrics c' probe now)"
  by (simp add: collectSystemMetrics_def Let_def)

lemma collect_timestamp: "Timestamp_sys (metrics (collectSystemMetrics c probe now)) = now"
  by (simp add: collectSystemMetrics_def Let_def zeroSystemMetrics_def
      split: option.splits list.splits)

lemma collect_cpu_fail:
  "cpu_Percent probe = None \<Longrightarrow> CPU_Usage (metrics (collectSystemMetrics c probe now)) = 0"
  by (simp add: collectSystemMetrics_def Let_def zeroSystemMetrics_def
      split: option.splits list.splits)

lemma collect_counts_fail:
  "cpu_Counts probe = None \<Longrightarrow> CPU_Cores (metrics (collectSystemMetrics c probe now)) = 0"
  by (simp add: collectSystemMetrics_def Let_def zeroSystemMetrics_def
      split: option.splits list.splits)

lemma collect_mem_fail:
  "mem_VirtualMemory probe = None \<Longrightarrow>
     Memory_Total (metrics (collectSystemMetrics c probe now)) = 0 \<and>
     Memory_Used (metrics (collectSystemMetrics c probe now)) = 0 \<and>
     Memory_Available (metrics (collectSystemMetrics c probe now)) = 0 \<and>
     Memory_Usage (metrics (collectSystemMetrics c probe now)) = 0"
  by (simp add: collectSystemMetrics_def Let_def zeroSystemMetrics_def
      split: option.splits list.splits)

lemma collect_disk_fail:
  "disk_Usage probe = None \<Longrightarrow>
     Disk_Total (metrics (collectSystemMetrics c probe now)) = 0 \<and>
     Disk_Used (metrics (collectSystemMetrics c probe now)) = 0 \<and>
     Disk_Free (metrics (collectSystemMetrics c probe now)) = 0 \<and>
     Disk_Usage (metrics (collectSystemMetrics c probe now)) = 0"
  by (simp add: collectSystemMetrics_def Let_def zeroSystemMetrics_def
      split: option.splits list.splits)

lemma collect_net_fail:
  "net_IOCounters probe = None \<Longrightarrow>
     Network_BytesSent (metrics (collectSystemMetrics c probe now)) = 0 \<and>
     Network_BytesRecv (metrics (collectSystemMetrics c probe now)) = 0"
  by (simp add: collectSystemMetrics_def Let_def zeroSystemMetrics_def
      split: option.splits list.splits)

text \<open>
  Claim C4, as stated, fails: on a tick where \<^verbatim>\<open>cpu.Percent\<close> returns an error the cached
  snapshot is replaced, and \<^verbatim>\<open>GetMetrics\<close> no longer returns the snapshot cached before.
\<close>

theorem collectSystemMetrics_keeps_snapshot_counterexample:
  "cpu_Percent cpuFailsProbe = None \<and>
   GetMetrics (collectSystemMetrics cachedSample cpuFailsProbe 5) \<noteq> GetMetrics cachedSample"
proof -
  have "CPU_Usage (GetMetrics (collectSystemMetrics cachedSample cpuFailsProbe 5)) = 0"
    by (simp add: GetMetrics_def collect_cpu_fail cpuFailsProbe_def)
  moreover have "CPU_Usage (GetMetrics cachedSample) = 50"
    by (simp add: GetMetrics_def cachedSample_def)
  ultimately have "GetMetrics (collectSystemMetrics cachedSample cpuFailsProbe 5) \<noteq> GetMetrics cachedSample"
    by auto
  then show ?thesis by (simp add: cpuFailsProbe_def)
qed


text \<open>
  Claim C4, amended. Every collection tick, also one on which a probe read fails,
  replaces the cached snapshot by a new one that does not depend on the snapshot cached
  before: it carries the tick's time, and the fields of every accessor that returned an
  error are zero.
\<close>

theorem collectSystemMetrics_replaces_snapshot:
  "GetMetrics (collectSystemMetrics c probe now) = GetMetrics (collectSystemMetrics c' probe now) \<and>
   Timestamp_sys (GetMetrics (collectSystemMetrics c probe now)) = now \<and>
   (cpu_Percent probe = None \<longrightarrow> CPU_Usage (GetMetrics (collectSystemMetrics c probe now)) = 0) \<and>
   (cpu_Counts probe = None \<longrightarrow> CPU_Cores (GetMetrics (collectSystemMetrics c probe now)) = 0) \<and>
   (mem_VirtualMemory probe = None \<longrightarrow>
      Memory_Total (GetMetrics (collectSystemMetrics c probe now)) = 0 \<and>
      Memory_Used (GetMetrics (collectSystemMetrics c probe now)) = 0 \<and>
      Memory_Available (GetMetrics (collectSystemMetrics c probe now)) = 0 \<and>
      Memory_Usage (GetMetrics (collectSystemMetrics c probe now)) = 0) \<and>
   (disk_Usage probe = None \<longrightarrow>
      Disk_Total (GetMetrics (collectSystemMetrics c probe now)) = 0 \<and>
      Disk_Used (GetMetrics (collectSystemMetrics c probe now)) = 0 \<and>
      Disk_Free (GetMetrics (collectSystemMetrics c probe now)) = 0 \<and>
      Disk_Usage (GetMetrics (collectSystemMetrics c probe now)) = 0) \<and>
   (net_IOCounters probe = None \<longrightarrow>
      Network_BytesSent (GetMetrics (collectSystemMetrics c probe now)) = 0 \<and>
      Network_BytesRecv (GetMetrics (collectSystemMetrics c probe now)) = 0)"
  using collect_independent[of c probe now c'] collect_timestamp[of c probe now]
    collect_cpu_fail[of probe c now] collect_counts_fail[of probe c now]
    collect_mem_fail[of probe c now] collect_disk_fail[of probe c now]
    collect_net_fail[of probe c now]
  by (simp only: GetMetrics_def) blast

text \<open>The theorem at the tick on which \<^verbatim>\<open>cpu.Percent\<close> fails.\<close>

theorem collectSystemMetrics_replaces_snapshot_witness:
  "cpu_Percent cpuFailsProbe = None \<and>
   CPU_Usage (GetMetrics (collectSystemMetrics cachedSample cpuFailsProbe 5)) = 0 \<and>
   Timestamp_sys (GetMetrics (collectSystemMetrics cachedSample cpuFailsProbe 5)) = 5"
  using collectSystemMetrics_replaces_snapshot[of cachedSample cpuFailsProbe 5 cachedSample]
  by (simp add: cpuFailsProbe_def)



section \<open>StopTest and its errors\<close>

lemma runningOrchestrator_eq:
  "runningOrchestrator =
     \<lparr>pluginManager = registry,
      executions = [''e1'' \<mapsto> \<lparr>ID = ''e1'', TestConfig = cpuTestConfig, Status = StatusRunning,
                     StartTime = 0, EndTime = None,
                     Ctx = \<lparr>deadline = 2000000000, cancelled = None\<rparr>, ErrorMessage = None\<rparr>]\<rparr>"
  by (simp add: runningOrchestrator_def goroutine_begin_def StartTest_def freshOrchestrator_def
      registry_def cpuTestConfig_def executeTest_begin_def WithTimeout_def params2s_def Second_def)

text \<open>
  Claim C5, as stated, fails in its last part: \<^verbatim>\<open>StopTest\<close> only cancels the context and
  leaves the status Running, so a second \<^verbatim>\<open>StopTest\<close> that comes before the goroutine has
  finished the execution succeeds again.
\<close>

theorem StopTest_twice_counterexample:
  "fst (StopTest runningOrchestrator ''e1'' 5) = None \<and>
   fst (StopTest (snd (StopTest runningOrchestrator ''e1'' 5)) ''e1'' 6) = None"
  by (simp add: runningOrchestrator_eq StopTest_def)

lemma Status_executeTest_run:
  "Status (fst (executeTest_run pm unmarshal e params tExec tErr now)) \<in>
     {StatusCompleted, StatusFailed, StatusStopped}"
  by (auto simp: executeTest_run_def finishTestWithError_def finishTestWithStatus_def
      handleTestPanic_def split: sum.splits prod.splits outcome.splits option.splits)

lemma StopTest_NotFound:
  "executions to executionID = None \<Longrightarrow>
     StopTest to executionID now = (Some (NotFound executionID), to)"
  by (simp add: StopTest_def)

lemma StopTest_NotRunning:
  "executions to executionID = Some e \<Longrightarrow> Status e \<noteq> StatusRunning \<Longrightarrow>
     StopTest to executionID now = (Some (NotRunning (Status e)), to)"
  by (simp add: StopTest_def)

lemma StopTest_Running:
  "executions to executionID = Some e \<Longrightarrow> Status e = StatusRunning \<Longrightarrow>
     StopTest to executionID now =
       (None, to\<lparr>executions := (executions to)(executionID \<mapsto> e\<lparr>Ctx := Cancel (Ctx e) now\<rparr>)\<rparr>)"
  by (simp add: StopTest_def)

lemma goroutine_run_Status:
  assumes "executions to executionID = Some e"
  shows "\<exists>e'. executions (fst (goroutine_run to unmarshal executionID params tExec tErr now)) executionID
            = Some e' \<and> Status e' \<noteq> StatusRunning"
proof -
  obtain e' pm' calls where r:
    "executeTest_run (pluginManager to) unmarshal e params tExec tErr now = (e', pm', calls)"
    by (cases "executeTest_run (pluginManager to) unmarshal e params tExec tErr now") auto
  have "Status e' \<in> {StatusCompleted, StatusFailed, StatusStopped}"
    using Status_executeTest_run[of "pluginManager to" unmarshal e params tExec tErr now] r by simp
  then have "Status e' \<noteq> StatusRunning" by auto
  then show ?thesis using assms r by (simp add: goroutine_run_def)
qed

text \<open>
  Claim C5, amended. \<^verbatim>\<open>StopTest\<close> returns the NotFound error for an execution id that is not
  in the executions map and the NotRunning error for an execution whose status is not
  Running, and changes nothing in both cases. On a Running execution it returns nil and
  changes one thing, the execution's context, which it cancels: if the context had not
  been cancelled before, it is done from that instant on, with the error Canceled (or
  DeadlineExceeded if its deadline had already passed). The status stays Running, so a
  further \<^verbatim>\<open>StopTest\<close> that comes before the execution's goroutine has finished returns nil
  again; once the goroutine has finished the execution, \<^verbatim>\<open>StopTest\<close> on the same id returns
  NotRunning.
\<close>

theorem StopTest_errors:
  "(executions to executionID = None \<longrightarrow>
      StopTest to executionID now = (Some (NotFound executionID), to)) \<and>
   (\<forall>e. executions to executionID = Some e \<and> Status e \<noteq> StatusRunning \<longrightarrow>
      StopTest to executionID now = (Some (NotRunning (Status e)), to)) \<and>
   (\<forall>e. executions to executionID = Some e \<and> Status e = StatusRunning \<longrightarrow>
      (\<exists>to'. StopTest to executionID now = (None, to') \<and>
         to' = to\<lparr>executions := (executions to)(executionID \<mapsto> e\<lparr>Ctx := Cancel (Ctx e) now\<rparr>)\<rparr> \<and>
         (cancelled (Ctx e) = None \<longrightarrow>
            (\<forall>t. now \<le> t \<longrightarrow>
               map_option (\<lambda>x. Err (Ctx x) t) (executions to' executionID) =
                 Some (Some (if now < deadline (Ctx e) then Canceled else DeadlineExceeded)))) \<and>
         map_option Status (executions to' executionID) = Some StatusRunning \<and>
         (\<forall>now2. fst (StopTest to' executionID now2) = None) \<and>
         (\<forall>unmarshal params tExec tErr now' now''.
            \<exists>st. st \<noteq> StatusRunning \<and>
              fst (StopTest (fst (goroutine_run to' unmarshal executionID params tExec tErr now'))
                     executionID now'') = Some (NotRunning st))))"
proof (intro conjI allI impI)
  assume "executions to executionID = None"
  then show "StopTest to executionID now = (Some (NotFound executionID), to)"
    by (rule StopTest_NotFound)
next
  fix e assume "executions to executionID = Some e \<and> Status e \<noteq> StatusRunning"
  then show "StopTest to executionID now = (Some (NotRunning (Status e)), to)"
    by (simp add: StopTest_NotRunning)
next
  fix e assume a: "executions to executionID = Some e \<and> Status e = StatusRunning"
  let ?to' = "to\<lparr>executions := (executions to)(executionID \<mapsto> e\<lparr>Ctx := Cancel (Ctx e) now\<rparr>)\<rparr>"
  have s: "StopTest to executionID now = (None, ?to')"
    using a by (simp add: StopTest_Running)
  have st: "map_option Status (executions ?to' executionID) = Some StatusRunning"
    using a by simp
  have again: "fst (StopTest ?to' executionID now2) = None" for now2
    using a by (simp add: StopTest_def)
  have cn: "cancelled (Ctx e) = None \<longrightarrow>
            (\<forall>t. now \<le> t \<longrightarrow>
               map_option (\<lambda>x. Err (Ctx x) t) (executions ?to' executionID) =
                 Some (Some (if now < deadline (Ctx e) then Canceled else DeadlineExceeded)))"
    by (simp add: Cancel_def Err_def doneAt_def doneErr_def)
  have fin: "\<exists>st. st \<noteq> StatusRunning \<and>
              fst (StopTest (fst (goroutine_run ?to' unmarshal executionID params tExec tErr now'))
                     executionID now'') = Some (NotRunning st)"
    for unmarshal :: "string \<Rightarrow> error + 'a" and params tExec tErr now' now''
  proof -
    have "executions ?to' executionID = Some (e\<lparr>Ctx := Cancel (Ctx e) now\<rparr>)" by simp
    from goroutine_run_Status[OF this, of unmarshal params tExec tErr now']
    obtain e' where e': "executions (fst (goroutine_run ?to' unmarshal executionID params tExec tErr now'))
        executionID = Some e'" "Status e' \<noteq> StatusRunning"
      by blast
    then show ?thesis
      using StopTest_NotRunning[OF e'] by auto
  qed
  show "\<exists>to'. StopTest to executionID now = (None, to') \<and>
         to' = to\<lparr>executions := (executions to)(executionID \<mapsto> e\<lparr>Ctx := Cancel (Ctx e) now\<rparr>)\<rparr> \<and>
         (cancelled (Ctx e) = None \<longrightarrow>
            (\<forall>t. now \<le> t \<longrightarrow>
               map_option (\<lambda>x. Err (Ctx x) t) (executions to' executionID) =
                 Some (Some (if now < deadline (Ctx e) then Canceled else DeadlineExceeded)))) \<and>
         map_option Status (executions to' executionID) = Some StatusRunning \<and>
         (\<forall>now2. fst (StopTest to' executionID now2) = None) \<and>
         (\<forall>unmarshal params tExec tErr now' now''.
            \<exists>st. st \<noteq> StatusRunning \<and>
              fst (StopTest (fst (goroutine_run to' unmarshal executionID params tExec tErr now'))
                     executionID now'') = Some (NotRunning st))"
    by (intro exI[where x="?to'"] conjI allI s refl cn st again fin)
qed

text \<open>The theorem at the execution \<open>e1\<close>, stopped at instant 5.\<close>

theorem StopTest_errors_witness:
  "fst (StopTest runningOrchestrator ''e1'' 5) = None \<and>
   map_option Ctx (executions (snd (StopTest runningOrchestrator ''e1'' 5)) ''e1'') =
     Some \<lparr>deadline = 2000000000, cancelled = Some 5\<rparr> \<and>
   map_option (\<lambda>x. Err (Ctx x) 7) (executions (snd (StopTest runningOrchestrator ''e1'' 5)) ''e1'') =
     Some (Some Canceled) \<and>
   map_option Status (executions (snd (StopTest runningOrchestrator ''e1'' 5)) ''e1'') =
     Some StatusRunning \<and>
   (\<exists>st. st \<noteq> StatusRunning \<and>
      fst (StopTest (fst (goroutine_run (snd (StopTest runningOrchestrator ''e1'' 5))
                            (\<lambda>raw. Inr ()) ''e1'' params2s 6 7 8)) ''e1'' 9) =
        Some (NotRunning st))"
proof -
  let ?e = "\<lparr>ID = ''e1'', TestConfig = cpuTestConfig, Status = StatusRunning,
            StartTime = 0, EndTime = None,
            Ctx = \<lparr>deadline = 2000000000, cancelled = None\<rparr>, ErrorMessage = None\<rparr>"
  have e: "executions runningOrchestrator ''e1'' = Some ?e"
    by (simp add: runningOrchestrator_eq)
  from StopTest_errors[of runningOrchestrator "''e1''" 5] e
  obtain to' where t: "StopTest runningOrchestrator ''e1'' 5 = (None, to')"
      "to' = runningOrchestrator\<lparr>executions := (executions runningOrchestrator)(''e1'' \<mapsto>
               ?e\<lparr>Ctx := Cancel (Ctx ?e) 5\<rparr>)\<rparr>"
      "\<forall>t. 5 \<le> t \<longrightarrow> map_option (\<lambda>x. Err (Ctx x) t) (executions to' ''e1'') = Some (Some Canceled)"
      "map_option Status (executions to' ''e1'') = Some StatusRunning"
      "\<forall>unmarshal params tExec tErr now' now''.
            \<exists>st. st \<noteq> StatusRunning \<and>
              fst (StopTest (fst (goroutine_run to' unmarshal ''e1'' params tExec tErr now'))
                     ''e1'' now'') = Some (NotRunning st)"
    by auto
  from t(5) have f: "\<exists>st. st \<noteq> StatusRunning \<and>
      fst (StopTest (fst (goroutine_run to' (\<lambda>raw. Inr ()) ''e1'' params2s 6 7 8)) ''e1'' 9) =
        Some (NotRunning st)"
    by blast
  from t(2) have c: "map_option Ctx (executions to' ''e1'') =
      Some \<lparr>deadline = 2000000000, cancelled = Some 5\<rparr>"
    by (simp add: Cancel_def)
  from t(3) have d: "map_option (\<lambda>x. Err (Ctx x) 7) (executions to' ''e1'') = Some (Some Canceled)"
    by simp
  from t(1) t(4) f c d show ?thesis by simp
qed

section \<open>A plugin whose Initialize fails\<close>

lemma stoppedEarly_eq:
  "stoppedEarly =
     \<lparr>pluginManager = strictRegistry,
      executions = [''e1'' \<mapsto> \<lparr>ID = ''e1'', TestConfig = arrayConfig, Status = StatusRunning,
                     StartTime = 0, EndTime = None,
                     Ctx = \<lparr>deadline = 2000000000, cancelled = Some 5\<rparr>, ErrorMessage = None\<rparr>]\<rparr>"
  by (simp add: stoppedEarly_def goroutine_begin_def StartTest_def StopTest_def Cancel_def
      strictRegistry_def arrayConfig_def executeTest_begin_def WithTimeout_def params2s_def
      Second_def)

lemma ExecutePlugin_Initialize_error:
  assumes "plugins pm name = Some plugin"
    and "Initialize plugin cfg (inst plugin) = (Returns (Some err), p1)"
  shows "ExecutePlugin pm ctx name cfg params tExec =
           (Returns (Some err), setInstance pm name plugin p1, [CallInitialize])"
  using assms by (simp add: ExecutePlugin_def)

text \<open>
  Claim C6, as stated, fails in its first part: when the context has been cancelled by
  the time \<^verbatim>\<open>ExecutePlugin\<close> returns the error of \<^verbatim>\<open>Initialize\<close> (here by a \<^verbatim>\<open>StopTest\<close> at
  instant 5), \<^verbatim>\<open>executeTest\<close> finishes the execution as Stopped.
\<close>

theorem Initialize_error_outcome_counterexample:
  "(\<exists>p. cpu_Initialize (UnmarshalError cannotUnmarshal (cpu_config NewCPUStressPlugin)) 4
          NewCPUStressPlugin = (Some (Text ''failed to unmarshal config: %w'' [TextArg cannotUnmarshal]), p)) \<and>
   map_option Status (executions (fst (goroutine_run stoppedEarly (\<lambda>raw. Inr ()) ''e1'' params2s 6 7 8)) ''e1'')
     = Some StatusStopped \<and>
   snd (goroutine_run stoppedEarly (\<lambda>raw. Inr ()) ''e1'' params2s 6 7 8) = [CallInitialize]"
  by (simp add: stoppedEarly_eq goroutine_run_def executeTest_run_def parsePluginConfig_def
      arrayConfig_def ExecutePlugin_def strictRegistry_def cpuStressPlugin_def cpu_Initialize_def
      Err_def doneAt_def doneErr_def finishTestWithStatus_def)


text \<open>
  Claim C6, amended. For every execution whose plugin \<^verbatim>\<open>Initialize\<close> returns an error, the
  plugin receives no call but \<^verbatim>\<open>Initialize\<close> (neither \<^verbatim>\<open>Execute\<close> nor \<^verbatim>\<open>Cleanup\<close>), and the
  execution finishes with status Failed and the error as its message, unless its
  context has been cancelled by then, in which case it finishes with status Stopped.
\<close>

theorem Initialize_error_outcome:
  assumes "plugins pm (Plugin (TestConfig e)) = Some plugin"
    and "parsePluginConfig unmarshal e = Inr cfg"
    and "Initialize plugin cfg (inst plugin) = (Returns (Some err), p1)"
  shows "case executeTest_run pm unmarshal e params tExec tErr now of
           (e', pm', calls) \<Rightarrow>
             calls = [CallInitialize] \<and>
             Status e' = (if Err (Ctx e) tErr = Some Canceled then StatusStopped else StatusFailed) \<and>
             ErrorMessage e' = (if Err (Ctx e) tErr = Some Canceled then ErrorMessage e else Some err) \<and>
             EndTime e' = Some now"
  using assms ExecutePlugin_Initialize_error[OF assms(1) assms(3), of "Ctx e" params tExec]
  by (simp add: executeTest_run_def finishTestWithStatus_def finishTestWithError_def)

text \<open>The theorem at the execution with the rejected configuration, not cancelled.\<close>

theorem Initialize_error_outcome_witness:
  "(case executeTest_run strictRegistry (\<lambda>raw. Inr ()) strictRunning params2s 6 7 8 of
      (e', pm', calls) \<Rightarrow>
        calls = [CallInitialize] \<and> Status e' = StatusFailed \<and>
        ErrorMessage e' = Some (Text ''failed to unmarshal config: %w'' [TextArg cannotUnmarshal]) \<and>
        EndTime e' = Some 8)"
proof -
  let ?plugin = "cpuStressPlugin (\<lambda>j cfg. case j of None \<Rightarrow> Decoded cfg
                                  | Some u \<Rightarrow> UnmarshalError cannotUnmarshal cfg)
          4 False NewCPUStressPlugin :: (unit, CPUStressPlugin) StressPlugin"
  have a: "plugins strictRegistry (Plugin (TestConfig strictRunning)) = Some ?plugin"
    by (simp add: strictRegistry_def strictRunning_def arrayConfig_def)
  have b: "parsePluginConfig (\<lambda>raw. Inr ()) strictRunning = Inr (Some ())"
    by (simp add: parsePluginConfig_def strictRunning_def arrayConfig_def)
  have c: "Initialize ?plugin (Some ()) (inst ?plugin) =
             (Returns (Some (Text ''failed to unmarshal config: %w'' [TextArg cannotUnmarshal])),
              NewCPUStressPlugin)"
    by (simp add: cpuStressPlugin_def cpu_Initialize_def)
  have d: "Err (Ctx strictRunning) 7 = None"
    by (simp add: Err_def doneAt_def strictRunning_def WithTimeout_def Second_def)
  from Initialize_error_outcome[OF a b c, where params=params2s and tExec=6 and tErr=7 and now=8] d
  show ?thesis
    by simp
qed


section \<open>An execution that reaches its deadline\<close>

text \<open>Whenever the context is never cancelled and \<^verbatim>\<open>Execute\<close> is entered after the context
  was created (so that the deadline comes before the plugin's timer),
  \<^verbatim>\<open>executeFullIntensity\<close> returns \<^verbatim>\<open>context.DeadlineExceeded\<close>; and whenever a plugin's
  \<^verbatim>\<open>Execute\<close> returns that error on a context that was never cancelled, the execution is
  finished as Failed.\<close>

lemma executeFullIntensity_deadline:
  assumes "cancelled ctx = None" "deadline ctx < tExec + Duration params"
  shows "executeFullIntensity ctx params tExec pick = Some (ctxError DeadlineExceeded)"
  using assms by (simp add: executeFullIntensity_def doneAt_def doneErr_def)

lemma executeTest_run_deadline:
  assumes "cancelled (Ctx e) = None"
    and "parsePluginConfig unmarshal e = Inr cfg"
    and "fst (ExecutePlugin pm (Ctx e) (Plugin (TestConfig e)) cfg params tExec) =
           Returns (Some (ctxError DeadlineExceeded))"
  shows "Status (fst (executeTest_run pm unmarshal e params tExec tErr now)) = StatusFailed"
proof -
  have "Err (Ctx e) tErr \<noteq> Some Canceled"
    using assms(1) by (simp add: Err_def doneErr_def)
  then show ?thesis
    using assms(2,3)
    by (cases "ExecutePlugin pm (Ctx e) (Plugin (TestConfig e)) cfg params tExec")
      (simp add: executeTest_run_def finishTestWithError_def)
qed

lemma cpuPlugin_Initialize:
  "Initialize cpuPlugin None (inst cpuPlugin) =
     (Returns None,
      NewCPUStressPlugin\<lparr>cpu_config := \<lparr>cpu_Workers = 4, Algorithm = ''prime'',
                                           cpu_Intensity = 70, RampUp = False\<rparr>,
                          currentWorkers := 4, cpu_WorkerCount := 4\<rparr>)"
  by (simp add: cpuPlugin_def cpuStressPlugin_def cpu_Initialize_def NewCPUStressPlugin_def)

lemma cpuPlugin_Execute_deadline:
  "\<not> RampUp (cpu_config p) \<Longrightarrow>
   Execute cpuPlugin \<lparr>deadline = 2000000000, cancelled = None\<rparr> params2s 1000000 p =
     (Returns (Some (ctxError DeadlineExceeded)), p\<lparr>operationsCount := 0\<rparr>)"
  by (simp add: cpuPlugin_def cpuStressPlugin_def cpu_Execute_def executeFullIntensity_def
      doneAt_def doneErr_def params2s_def Second_def Let_def)

lemma cpuPlugin_Cleanup:
  "\<not> cpu_stopChan p \<Longrightarrow> Cleanup cpuPlugin p = (Returns None, p\<lparr>cpu_stopChan := True\<rparr>)"
  by (simp add: cpuPlugin_def cpuStressPlugin_def cpu_Cleanup_def close_chan_def)

lemma ExecutePlugin_deadline:
  "fst (ExecutePlugin registry \<lparr>deadline = 2000000000, cancelled = None\<rparr> ''cpu-stress'' None
     params2s 1000000) = Returns (Some (ctxError DeadlineExceeded))"
  by (simp add: ExecutePlugin_def registry_def cpuPlugin_Initialize cpuPlugin_Execute_deadline
      cpuPlugin_Cleanup NewCPUStressPlugin_def)

text \<open>
  Claim C1 on the code. The two-second CPU test \<open>e1\<close> (full intensity, no \<^verbatim>\<open>StopTest\<close>, no
  \<^verbatim>\<open>EmergencyStop\<close>) enters \<^verbatim>\<open>Execute\<close> one millisecond after \<^verbatim>\<open>StartTest\<close> created the context.
  The context's deadline comes before the plugin's own timer, \<^verbatim>\<open>Execute\<close> returns
  \<^verbatim>\<open>context.DeadlineExceeded\<close>, which is not \<^verbatim>\<open>context.Canceled\<close>, and the execution is
  finished as Failed with the message "context deadline exceeded", not as Completed.
\<close>

theorem deadline_reached_marks_Failed:
  "map_option (\<lambda>e. (Status e, ErrorMessage e))
     (executions (fst (goroutine_run runningOrchestrator (\<lambda>raw. Inr ()) ''e1'' params2s
                         1000000 2000000001 2000000002)) ''e1'') =
   Some (StatusFailed, Some (Text ''context deadline exceeded'' []))"
proof -
  obtain pm' calls where x: "ExecutePlugin registry \<lparr>deadline = 2000000000, cancelled = None\<rparr>
      ''cpu-stress'' None params2s 1000000 = (Returns (Some (ctxError DeadlineExceeded)), pm', calls)"
    using ExecutePlugin_deadline
    by (cases "ExecutePlugin registry \<lparr>deadline = 2000000000, cancelled = None\<rparr>
      ''cpu-stress'' None params2s 1000000") auto
  show ?thesis
    by (simp add: runningOrchestrator_eq goroutine_run_def executeTest_run_def
        parsePluginConfig_def cpuTestConfig_def x Err_def doneAt_def doneErr_def
        finishTestWithError_def ctxError_def)
qed



section \<open>Cleanup called twice\<close>

text \<open>
  Claim C7 on the code. On a fresh CPU plugin and on a fresh memory plugin, neither ever
  initialised, the first \<^verbatim>\<open>Cleanup\<close> returns nil and the second one panics: it closes the
  \<^verbatim>\<open>stopChan\<close> that the first call has closed.
\<close>

theorem Cleanup_twice_panics:
  "fst (cpu_Cleanup NewCPUStressPlugin) = Returns None \<and>
   fst (cpu_Cleanup (snd (cpu_Cleanup NewCPUStressPlugin))) =
     Panics (Text ''close of closed channel'' []) \<and>
   fst (mem_Cleanup NewMemoryStressPlugin) = Returns None \<and>
   fst (mem_Cleanup (snd (mem_Cleanup NewMemoryStressPlugin))) =
     Panics (Text ''close of closed channel'' [])"
  by (simp add: cpu_Cleanup_def mem_Cleanup_def close_chan_def NewCPUStressPlugin_def
      NewMemoryStressPlugin_def)


section \<open>The mixed mode of the I/O workload\<close>

lemma io_config_Initialize:
  "ReadWriteRatio (io_config (snd (io_Initialize (Decoded (mixedConfig r)) unicodeUpper parseInt notExist p))) =
     (if r \<le> 0 then 1 / 2 else r) \<and>
   Operations (io_config (snd (io_Initialize (Decoded (mixedConfig r)) unicodeUpper parseInt notExist p))) = ''mixed''"
  by (simp add: io_Initialize_def mixedConfig_def Let_def split: sum.splits)

lemma smod_1000_less: "real_of_int (nano smod 1000) / 1000 < 1"
proof -
  have "nano smod 1000 \<le> \<bar>nano\<bar> mod 1000"
    by (cases "nano < 0") (auto simp: signed_modulo_int_def sgn_if)
  also have "\<dots> < 1000" by simp
  finally show ?thesis by simp
qed

text \<open>
  Claim C9 on the code. After \<^verbatim>\<open>Initialize\<close> in mixed mode with \<^verbatim>\<open>read_write_ratio\<close> = 1.0
  every operation is dispatched to \<^verbatim>\<open>performRead\<close>, whatever the clock reads. With
  \<^verbatim>\<open>read_write_ratio\<close> = 0.0, \<^verbatim>\<open>Initialize\<close> replaces the ratio by the default 0.5, and an
  operation issued when the clock's nanoseconds are a multiple of 1000 is a read, not a
  write.
\<close>

theorem mixed_ratio_dispatch:
  "performIOOperation (snd (io_Initialize (Decoded (mixedConfig 1)) unicodeUpper parseInt notExist NewIOStressPlugin))
     nano = PerformRead \<and>
   ReadWriteRatio (io_config (snd (io_Initialize (Decoded (mixedConfig 0)) unicodeUpper parseInt
     notExist NewIOStressPlugin))) = 1 / 2 \<and>
   performIOOperation (snd (io_Initialize (Decoded (mixedConfig 0)) unicodeUpper parseInt notExist NewIOStressPlugin))
     0 = PerformRead"
  using io_config_Initialize[of 1 unicodeUpper parseInt notExist NewIOStressPlugin]
    io_config_Initialize[of 0 unicodeUpper parseInt notExist NewIOStressPlugin] smod_1000_less[of nano]
  by (simp add: performIOOperation_def Let_def signed_modulo_int_def)



section \<open>The allocation phase of the memory workload\<close>




















end
